theory Spec2Isabelle
  imports Complex_Main "HOL-Library.Word"
begin

section \<open>passport-email: credential records, hashing and throttling\<close>

text \<open>
  A shallow embedding of \<^verbatim>\<open>lib/passport-email.js\<close>, the mongoose plugin that adds
  \<^verbatim>\<open>setPassword\<close>, \<^verbatim>\<open>authenticate\<close>, \<^verbatim>\<open>register\<close> and the two finders to a user schema.

  Conventions of the embedding:
  \<^item> a mongoose document is the record \<open>user\<close>; the configurable field names
    (\<^verbatim>\<open>usernameField\<close>, \<^verbatim>\<open>hashField\<close>, ...) are taken to be pairwise distinct, so that each
    names its own field of the record; a \<^verbatim>\<open>String\<close> field is a \<open>string option\<close>,
    \<open>None\<close> standing for \<^verbatim>\<open>undefined\<close>;
  \<^item> a node callback \<^verbatim>\<open>cb(err)\<close>, \<^verbatim>\<open>cb(null, self)\<close>, \<^verbatim>\<open>cb(null, false, info)\<close> is the value
    of type \<open>outcome\<close> the function returns;
  \<^item> everything the plugin calls but does not define (node's \<^verbatim>\<open>crypto\<close>, \<^verbatim>\<open>Buffer\<close>,
    \<^verbatim>\<open>util.format\<close>, \<^verbatim>\<open>String.prototype.toLowerCase\<close>, mongoose's \<^verbatim>\<open>findOne\<close> and the
    store write behind \<^verbatim>\<open>save\<close>) is a field of the record \<open>env\<close>, a parameter of every
    function; the store itself is a type variable;
  \<^item> every call into the environment that reads or writes the store, draws random bytes
    or derives a key appends an \<open>event\<close> to the log of the \<open>world\<close>, so that
    ``without any hash computation'' and ``before any store access'' are statements
    about the log;
  \<^item> \<^verbatim>\<open>Date.now()\<close> is read at most twice in one \<^verbatim>\<open>authenticate\<close>: once in the throttle
    test and once where \<^verbatim>\<open>lastLoginField\<close> is written. The two readings are the
    parameters \<open>tcheck\<close> and \<open>tset\<close> (milliseconds, integers);
  \<^item> finite JavaScript numbers are real numbers here, and \<^verbatim>\<open>Math.log\<close> and \<^verbatim>\<open>Math.pow\<close>
    compute without rounding. What \<^verbatim>\<open>Math.pow\<close> returns is a \<open>number\<close>: \<^verbatim>\<open>NaN\<close> (a
    negative base with a fractional exponent), \<^verbatim>\<open>Infinity\<close> or a real. The counter
    \<^verbatim>\<open>attempts\<close> is a natural number, and the sum \<^verbatim>\<open>attempts + 1\<close> that is stored is the
    sum of doubles, which counts exactly only below \<open>2 ^ 53\<close>.
\<close>

subsection \<open>Data\<close>

type_synonym byte = "8 word"

datatype error =
    BadRequestError string string  \<comment> \<open>\<^verbatim>\<open>new BadRequestError(name, message)\<close>\<close>
  | TypeError string
  | LibraryError string            \<comment> \<open>an \<^verbatim>\<open>err\<close> handed back by crypto or by the store\<close>

record user =
  uid :: nat                       \<comment> \<open>\<^verbatim>\<open>_id\<close>\<close>
  username :: "string option"
  email :: "string option"
  hash :: "string option"
  salt :: "string option"
  attempts :: nat
  lastLogin :: int

record plain =
  p_username :: "string option"
  p_email :: "string option"
  p_hash :: "string option"
  p_salt :: "string option"
  p_attempts :: "nat option"
  p_lastLogin :: "int option"

datatype candidate = Instance user | Plain plain

record info =
  result :: "string option"
  message :: string

datatype outcome = Err error | Authenticated user | Rejected info

datatype field = UsernameField | EmailField

datatype event =
    RandomBytes nat
  | Pbkdf2 "string option" string nat nat
  | FindOne field "string option"
  | Save user

record 's world =
  store :: 's
  log :: "event list"

record 's env =
  randomBytes :: "nat \<Rightarrow> error + byte list"
  pbkdf2 :: "string option \<Rightarrow> string \<Rightarrow> nat \<Rightarrow> nat \<Rightarrow> error + byte list"
  toString :: "string \<Rightarrow> byte list \<Rightarrow> string"
  toLowerCase :: "string \<Rightarrow> string"
  format :: "string \<Rightarrow> string list \<Rightarrow> string"
  findOne :: "'s \<Rightarrow> field \<Rightarrow> string option \<Rightarrow> string option \<Rightarrow> string option
                \<Rightarrow> error + user option"
  save :: "'s \<Rightarrow> user \<Rightarrow> error + 's"

subsection \<open>Options and their defaults\<close>

record plugin_options =
  o_saltlen :: "nat option"
  o_iterations :: "nat option"
  o_keylen :: "nat option"
  o_encoding :: "string option"
  o_usernameField :: "string option"
  o_emailField :: "string option"
  o_usernameLowerCase :: bool
  o_limitAttempts :: bool
  o_interval :: "real option"
  o_maxInterval :: "real option"
  o_incorrectPasswordError :: "string option"
  o_incorrectUsernameError :: "string option"
  o_missingUsernameError :: "string option"
  o_missingEmailError :: "string option"
  o_missingPasswordError :: "string option"
  o_userExistsError :: "string option"
  o_noSaltValueStoredError :: "string option"
  o_attemptTooSoonError :: "string option"
  o_selectFields :: "string option"
  o_populateFields :: "string option"

record options =
  saltlen :: nat
  iterations :: nat
  keylen :: nat
  encoding :: string
  usernameField :: string
  emailField :: string
  usernameLowerCase :: bool
  limitAttempts :: bool
  interval :: real
  maxInterval :: real
  incorrectPasswordError :: string
  incorrectUsernameError :: string
  missingUsernameError :: string
  missingEmailError :: string
  missingPasswordError :: string
  userExistsError :: string
  noSaltValueStoredError :: string
  attemptTooSoonError :: string
  selectFields :: "string option"
  populateFields :: "string option"

text \<open>JavaScript's \<^verbatim>\<open>x || d\<close> on a number and on a string: \<^verbatim>\<open>undefined\<close>, \<^verbatim>\<open>0\<close> and
  \<^verbatim>\<open>''\<close> are falsy.\<close>

definition or_nat :: "nat option \<Rightarrow> nat \<Rightarrow> nat" where
  "or_nat x d = (case x of None \<Rightarrow> d | Some n \<Rightarrow> if n = 0 then d else n)"

definition or_real :: "real option \<Rightarrow> real \<Rightarrow> real" where
  "or_real x d = (case x of None \<Rightarrow> d | Some r \<Rightarrow> if r = 0 then d else r)"

definition or_str :: "string option \<Rightarrow> string \<Rightarrow> string" where
  "or_str x d = (case x of None \<Rightarrow> d | Some s \<Rightarrow> if s = [] then d else s)"

definition truthy :: "string option \<Rightarrow> bool" where
  "truthy x = (case x of None \<Rightarrow> False | Some s \<Rightarrow> s \<noteq> [])"

text \<open>Lines 10 to 42. \<^verbatim>\<open>interval\<close> and \<^verbatim>\<open>maxInterval\<close> get their defaults only under
  \<^verbatim>\<open>limitAttempts\<close>; otherwise they stay as given (\<^verbatim>\<open>undefined\<close> reads as \<open>0\<close>) and are
  never read.\<close>

definition defaults :: "plugin_options \<Rightarrow> options" where
  "defaults raw = \<lparr>
     saltlen = or_nat (o_saltlen raw) 32,
     iterations = or_nat (o_iterations raw) 25000,
     keylen = or_nat (o_keylen raw) 512,
     encoding = or_str (o_encoding raw) ''hex'',
     usernameField = or_str (o_usernameField raw) ''username'',
     emailField = or_str (o_emailField raw) ''email'',
     usernameLowerCase = o_usernameLowerCase raw,
     limitAttempts = o_limitAttempts raw,
     interval = (if o_limitAttempts raw then or_real (o_interval raw) 100
                 else or_real (o_interval raw) 0),
     maxInterval = (if o_limitAttempts raw then or_real (o_maxInterval raw) 300000
                    else or_real (o_maxInterval raw) 0),
     incorrectPasswordError = or_str (o_incorrectPasswordError raw) ''Incorrect password'',
     incorrectUsernameError = or_str (o_incorrectUsernameError raw) ''Incorrect %s'',
     missingUsernameError = or_str (o_missingUsernameError raw) ''Field %s is not set'',
     missingEmailError = or_str (o_missingEmailError raw) ''Email is missing'',
     missingPasswordError = or_str (o_missingPasswordError raw) ''Password argument not set!'',
     userExistsError = or_str (o_userExistsError raw) ''User already exists with %s %s'',
     noSaltValueStoredError = or_str (o_noSaltValueStoredError raw)
       ''Authentication not possible. No salt value stored in mongodb collection!'',
     attemptTooSoonError = or_str (o_attemptTooSoonError raw)
       ''Login attempted too soon after previous attempt'',
     selectFields = o_selectFields raw,
     populateFields = o_populateFields raw \<rparr>"

text \<open>The plugin applied with no options at all (\<^verbatim>\<open>options = options || {}\<close>).\<close>

definition no_options :: plugin_options where
  "no_options = \<lparr>
     o_saltlen = None, o_iterations = None, o_keylen = None, o_encoding = None,
     o_usernameField = None, o_emailField = None,
     o_usernameLowerCase = False, o_limitAttempts = False,
     o_interval = None, o_maxInterval = None,
     o_incorrectPasswordError = None, o_incorrectUsernameError = None,
     o_missingUsernameError = None, o_missingEmailError = None,
     o_missingPasswordError = None, o_userExistsError = None,
     o_noSaltValueStoredError = None, o_attemptTooSoonError = None,
     o_selectFields = None, o_populateFields = None \<rparr>"

subsection \<open>The schema: new documents and the pre-save hook\<close>

text \<open>\<^verbatim>\<open>new this(user)\<close>: the fields of the plain object, with the schema defaults of lines
  61 to 70 for the two throttling fields (\<^verbatim>\<open>default: 0\<close> and \<^verbatim>\<open>default: Date.now\<close>).
  \<open>i\<close> is the fresh \<^verbatim>\<open>_id\<close> and \<open>tnew\<close> the reading of the clock at construction.\<close>

definition new_user :: "nat \<Rightarrow> int \<Rightarrow> plain \<Rightarrow> user" where
  "new_user i tnew p = \<lparr>
     uid = i,
     username = p_username p,
     email = p_email p,
     hash = p_hash p,
     salt = p_salt p,
     attempts = (case p_attempts p of None \<Rightarrow> 0 | Some a \<Rightarrow> a),
     lastLogin = (case p_lastLogin p of None \<Rightarrow> tnew | Some t \<Rightarrow> t) \<rparr>"

text \<open>Lines 74 to 84. \<^verbatim>\<open>undefined.toLowerCase()\<close> throws a \<^verbatim>\<open>TypeError\<close>, which makes the
  save fail.\<close>

definition preSave :: "options \<Rightarrow> 's env \<Rightarrow> user \<Rightarrow> error + user" where
  "preSave opts env u =
     (if usernameLowerCase opts \<and> username u = None
      then Inl (TypeError ''toLowerCase of undefined'')
      else
        let u1 = (if usernameLowerCase opts
                  then u\<lparr>username := map_option (toLowerCase env) (username u)\<rparr> else u);
            u2 = (if truthy (email u1)
                  then u1\<lparr>email := map_option (toLowerCase env) (email u1)\<rparr> else u1)
        in Inr u2)"

text \<open>\<^verbatim>\<open>doc.save(cb)\<close>: the hook, then the write to the store. The result is the error
  handed to \<^verbatim>\<open>cb\<close> (if any), the document as the hook left it, and the world.\<close>

definition doc_save :: "options \<Rightarrow> 's env \<Rightarrow> user \<Rightarrow> 's world \<Rightarrow> error option \<times> user \<times> 's world" where
  "doc_save opts env u w =
     (case preSave opts env u of
        Inl e \<Rightarrow> (Some e, u, w)
      | Inr u' \<Rightarrow>
          (case save env (store w) u' of
             Inl e \<Rightarrow> (Some e, u', w\<lparr>log := log w @ [Save u']\<rparr>)
           | Inr s' \<Rightarrow> (None, u', w\<lparr>store := s', log := log w @ [Save u']\<rparr>)))"

text \<open>\<^verbatim>\<open>this.save()\<close> with no callback, as \<^verbatim>\<open>authenticate\<close> calls it: the error is dropped.\<close>

definition save_unchecked :: "options \<Rightarrow> 's env \<Rightarrow> user \<Rightarrow> 's world \<Rightarrow> user \<times> 's world" where
  "save_unchecked opts env u w = snd (doc_save opts env u w)"

subsection \<open>Hashing\<close>

text \<open>Lines 86 to 111.\<close>

definition setPassword :: "options \<Rightarrow> 's env \<Rightarrow> string option \<Rightarrow> user \<Rightarrow> 's world
    \<Rightarrow> (error + user) \<times> 's world" where
  "setPassword opts env password u w =
     (if \<not> truthy password
      then (Inl (BadRequestError ''missingPassword'' (missingPasswordError opts)), w)
      else
        let w1 = w\<lparr>log := log w @ [RandomBytes (saltlen opts)]\<rparr> in
        (case randomBytes env (saltlen opts) of
           Inl err \<Rightarrow> (Inl err, w1)
         | Inr buf \<Rightarrow>
             let s = toString env (encoding opts) buf;
                 w2 = w1\<lparr>log := log w1 @ [Pbkdf2 password s (iterations opts) (keylen opts)]\<rparr>
             in (case pbkdf2 env password s (iterations opts) (keylen opts) of
                   Inl err \<Rightarrow> (Inl err, w2)
                 | Inr hashRaw \<Rightarrow>
                     (Inr (u\<lparr>hash := Some (toString env (encoding opts) hashRaw),
                             salt := Some s\<rparr>), w2))))"

subsection \<open>Throttling\<close>

datatype number = NaN | PosInfinity | Number real

text \<open>\<^verbatim>\<open>Math.log\<close> of a positive number; the plugin calls it on a counter plus one.\<close>

definition Math_log :: "real \<Rightarrow> real" where
  "Math_log x = ln x"

text \<open>\<^verbatim>\<open>Math.pow(x, y)\<close> of finite \<open>x\<close> and \<open>y\<close>: \<open>1\<close> for the exponent \<open>0\<close> whatever the
  base, the real power of a positive base, \<open>0\<close> or \<^verbatim>\<open>Infinity\<close> for the base \<open>0\<close>, and for a
  negative base the signed integer power when the exponent is an integer, \<^verbatim>\<open>NaN\<close>
  otherwise.\<close>

definition Math_pow :: "real \<Rightarrow> real \<Rightarrow> number" where
  "Math_pow x y =
     (if y = 0 then Number 1
      else if 0 < x then Number (x powr y)
      else if x = 0 then (if 0 < y then Number 0 else PosInfinity)
      else if real_of_int \<lfloor>y\<rfloor> = y then Number (x powi \<lfloor>y\<rfloor>)
      else NaN)"

text \<open>\<^verbatim>\<open>a < m\<close> for a finite \<open>m\<close>: false when \<open>a\<close> is \<^verbatim>\<open>NaN\<close> or \<^verbatim>\<open>Infinity\<close>.\<close>

definition number_less :: "number \<Rightarrow> real \<Rightarrow> bool" where
  "number_less a m = (case a of Number r \<Rightarrow> r < m | _ \<Rightarrow> False)"

text \<open>\<^verbatim>\<open>n + 1\<close> on a double that holds the natural number \<open>n\<close>. Below \<open>2 ^ 53\<close> the sum is
  exact. From there to \<open>2 ^ 54\<close> the doubles are the even numbers and \<open>n + 1\<close> lies
  halfway between two of them: it is rounded to the one with the even significand.
  Beyond, \<open>n\<close> is the nearest double.\<close>

definition plus_one :: "nat \<Rightarrow> nat" where
  "plus_one n =
     (if n < 2 ^ 53 then n + 1
      else if n < 2 ^ 54 \<and> odd (n div 2) then n + 2
      else n)"

text \<open>Lines 117 and 118. Inside \<^verbatim>\<open>Math.log\<close> the sum \<^verbatim>\<open>attempts + 1\<close> is taken unrounded, as
  the logarithm and the power are. When the power is \<^verbatim>\<open>NaN\<close> the comparison of line 118
  is false and the delay is \<^verbatim>\<open>maxInterval\<close>.\<close>

definition attemptsInterval :: "options \<Rightarrow> user \<Rightarrow> number" where
  "attemptsInterval opts u = Math_pow (interval opts) (Math_log (real (attempts u) + 1))"

definition calculatedInterval :: "options \<Rightarrow> user \<Rightarrow> real" where
  "calculatedInterval opts u =
     (if number_less (attemptsInterval opts u) (maxInterval opts)
      then (case attemptsInterval opts u of Number r \<Rightarrow> r | _ \<Rightarrow> maxInterval opts)
      else maxInterval opts)"

text \<open>The test of lines 116 and 120: the attempt at clock reading \<open>tcheck\<close> is turned away.\<close>

definition throttled :: "options \<Rightarrow> int \<Rightarrow> user \<Rightarrow> bool" where
  "throttled opts tcheck u =
     (limitAttempts opts \<and> real_of_int (tcheck - lastLogin u) < calculatedInterval opts u)"

subsection \<open>Authentication of one document\<close>

text \<open>Lines 113 to 162. The result is what the callback receives, the document
  (\<^verbatim>\<open>self\<close>) as the call leaves it, and the world.\<close>

definition authenticate :: "options \<Rightarrow> 's env \<Rightarrow> int \<Rightarrow> int \<Rightarrow> string option \<Rightarrow> user \<Rightarrow> 's world
    \<Rightarrow> outcome \<times> user \<times> 's world" where
  "authenticate opts env tcheck tset password u w =
     (if throttled opts tcheck u
      then
        (let (u', w') = save_unchecked opts env (u\<lparr>lastLogin := tset\<rparr>) w
         in (Rejected \<lparr>result = None, message = attemptTooSoonError opts\<rparr>, u', w'))
      else if \<not> truthy (salt u)
      then (Rejected \<lparr>result = None, message = noSaltValueStoredError opts\<rparr>, u, w)
      else
        let w1 = w\<lparr>log := log w @ [Pbkdf2 password (the (salt u)) (iterations opts) (keylen opts)]\<rparr>
        in (case pbkdf2 env password (the (salt u)) (iterations opts) (keylen opts) of
              Inl err \<Rightarrow> (Err err, u, w1)
            | Inr hashRaw \<Rightarrow>
                if Some (toString env (encoding opts) hashRaw) = hash u
                then
                  (if limitAttempts opts
                   then
                     (let (u', w') =
                        save_unchecked opts env (u\<lparr>lastLogin := tset, attempts := 0\<rparr>) w1
                      in (Authenticated u', u', w'))
                   else (Authenticated u, u, w1))
                else
                  (let (u', w') =
                     (if limitAttempts opts
                      then save_unchecked opts env
                             (u\<lparr>lastLogin := tset, attempts := plus_one (attempts u)\<rparr>) w1
                      else (u, w1))
                   in (Rejected \<lparr>result = Some ''incorrectPassword'',
                                 message = incorrectPasswordError opts\<rparr>, u', w'))))"

subsection \<open>Finders, authentication by name, registration\<close>

text \<open>Lines 259 to 309, called with a callback.\<close>

definition findByUsername :: "options \<Rightarrow> 's env \<Rightarrow> string option \<Rightarrow> 's world
    \<Rightarrow> (error + user option) \<times> 's world" where
  "findByUsername opts env name w =
     (let name' = (if name \<noteq> None \<and> usernameLowerCase opts
                   then map_option (toLowerCase env) name else name)
      in (findOne env (store w) UsernameField name' (selectFields opts) (populateFields opts),
          w\<lparr>log := log w @ [FindOne UsernameField name']\<rparr>))"

definition findByEmail :: "options \<Rightarrow> 's env \<Rightarrow> string option \<Rightarrow> 's world
    \<Rightarrow> (error + user option) \<times> 's world" where
  "findByEmail opts env mail w =
     (let mail' = (if mail \<noteq> None then map_option (toLowerCase env) mail else mail)
      in (findOne env (store w) EmailField mail' (selectFields opts) (populateFields opts),
          w\<lparr>log := log w @ [FindOne EmailField mail']\<rparr>))"

text \<open>Lines 164 to 193: the function \<^verbatim>\<open>schema.statics.authenticate()\<close> returns. The
  second component is the document that was found, as the call leaves it.\<close>

definition authenticate_static :: "options \<Rightarrow> 's env \<Rightarrow> int \<Rightarrow> int \<Rightarrow> string option \<Rightarrow> string option
    \<Rightarrow> 's world \<Rightarrow> outcome \<times> user option \<times> 's world" where
  "authenticate_static opts env tcheck tset usernameOrEmail password w =
     (case findByUsername opts env usernameOrEmail w of
        (Inl err, w1) \<Rightarrow> (Err err, None, w1)
      | (Inr (Some u), w1) \<Rightarrow>
          (let (r, u', w') = authenticate opts env tcheck tset password u w1
           in (r, Some u', w'))
      | (Inr None, w1) \<Rightarrow>
          (case findByEmail opts env usernameOrEmail w1 of
             (Inl err, w2) \<Rightarrow> (Err err, None, w2)
           | (Inr (Some u), w2) \<Rightarrow>
               (let (r, u', w') = authenticate opts env tcheck tset password u w2
                in (r, Some u', w'))
           | (Inr None, w2) \<Rightarrow>
               (Rejected \<lparr>result = Some ''incorrectUsername'',
                          message = format env (incorrectUsernameError opts)
                                      [usernameField opts]\<rparr>, None, w2)))"

text \<open>Lines 211 to 213: a candidate that is not a document yet is made one. \<open>i\<close> and
  \<open>tnew\<close> are used only then.\<close>

definition to_document :: "nat \<Rightarrow> int \<Rightarrow> candidate \<Rightarrow> user" where
  "to_document i tnew cand = (case cand of Instance d \<Rightarrow> d | Plain p \<Rightarrow> new_user i tnew p)"

text \<open>Lines 209 to 257.\<close>

definition register :: "options \<Rightarrow> 's env \<Rightarrow> nat \<Rightarrow> int \<Rightarrow> candidate \<Rightarrow> string option \<Rightarrow> 's world
    \<Rightarrow> (error + user) \<times> 's world" where
  "register opts env i tnew cand password w =
     (let u = to_document i tnew cand in
      if \<not> truthy (username u)
      then (Inl (BadRequestError ''missingUsername''
                   (format env (missingUsernameError opts) [usernameField opts])), w)
      else if \<not> truthy (email u)
      then (Inl (BadRequestError ''missingEmail'' (missingEmailError opts)), w)
      else
        (case findByUsername opts env (username u) w of
           (Inl err, w1) \<Rightarrow> (Inl err, w1)
         | (Inr (Some existingUser), w1) \<Rightarrow>
             (Inl (BadRequestError ''usernameExists''
                     (format env (userExistsError opts)
                        [usernameField opts, the (username u)])), w1)
         | (Inr None, w1) \<Rightarrow>
             (case findByEmail opts env (email u) w1 of
                (Inl err, w2) \<Rightarrow> (Inl err, w2)
              | (Inr (Some existingUser), w2) \<Rightarrow>
                  (Inl (BadRequestError ''emailExists''
                          (format env (userExistsError opts)
                             [emailField opts, the (email u)])), w2)
              | (Inr None, w2) \<Rightarrow>
                  (case setPassword opts env password u w2 of
                     (Inl err, w3) \<Rightarrow> (Inl err, w3)
                   | (Inr u1, w3) \<Rightarrow>
                       (case doc_save opts env u1 w3 of
                          (Some err, u2, w4) \<Rightarrow> (Inl err, w4)
                        | (None, u2, w4) \<Rightarrow> (Inr u2, w4))))))"

subsection \<open>Reading the log\<close>

fun is_hash_event :: "event \<Rightarrow> bool" where
  "is_hash_event (Pbkdf2 _ _ _ _) = True"
| "is_hash_event _ = False"

fun is_save_event :: "event \<Rightarrow> bool" where
  "is_save_event (Save _) = True"
| "is_save_event _ = False"

fun is_find_event :: "event \<Rightarrow> bool" where
  "is_find_event (FindOne _ _) = True"
| "is_find_event _ = False"

subsection \<open>A concrete environment\<close>

text \<open>
  An environment to run the functions in: the store is a list of documents, \<^verbatim>\<open>findOne\<close>
  returns the first document whose field equals the value asked for, the write behind
  \<^verbatim>\<open>save\<close> replaces the document with the same \<^verbatim>\<open>_id\<close> or appends a new one. Buffers are
  printed in hexadecimal, lower-casing is that of ASCII, \<open>demo_format\<close> fills in \<^verbatim>\<open>%s\<close>.
  The generator and the key derivation are stand-ins: the first returns bytes \<open>0x2A\<close>,
  the second the first \<^verbatim>\<open>keylen\<close> bytes of the password followed by the salt. The
  theorems below hold for every environment; this one instantiates them.
\<close>

definition hex_digit :: "nat \<Rightarrow> char" where
  "hex_digit n = ''0123456789abcdef'' ! n"

definition hex_of_byte :: "byte \<Rightarrow> string" where
  "hex_of_byte b = [hex_digit (unat b div 16), hex_digit (unat b mod 16)]"

definition demo_toString :: "string \<Rightarrow> byte list \<Rightarrow> string" where
  "demo_toString enc buf = concat (map hex_of_byte buf)"

definition demo_randomBytes :: "nat \<Rightarrow> error + byte list" where
  "demo_randomBytes n = Inr (replicate n 0x2A)"

definition demo_pbkdf2 :: "string option \<Rightarrow> string \<Rightarrow> nat \<Rightarrow> nat \<Rightarrow> error + byte list" where
  "demo_pbkdf2 password s iters klen =
     (case password of
        None \<Rightarrow> Inl (TypeError ''password must be a string'')
      | Some p \<Rightarrow> Inr (take klen (map (\<lambda>c. of_nat (of_char c)) (p @ s))))"

definition lower_char :: "char \<Rightarrow> char" where
  "lower_char c =
     (let n = (of_char c :: nat) in if 65 \<le> n \<and> n \<le> 90 then char_of (n + 32) else c)"

definition demo_toLowerCase :: "string \<Rightarrow> string" where
  "demo_toLowerCase s = map lower_char s"

fun demo_format :: "string \<Rightarrow> string list \<Rightarrow> string" where
  "demo_format [] args = concat (map (\<lambda>a. CHR '' '' # a) args)"
| "demo_format (c # rest) args =
     (case (rest, args) of
        (d # rest', a # args') \<Rightarrow>
          if c = CHR ''%'' \<and> d = CHR ''s'' then a @ demo_format rest' args'
          else c # demo_format rest args
      | _ \<Rightarrow> c # demo_format rest args)"

definition field_of :: "field \<Rightarrow> user \<Rightarrow> string option" where
  "field_of f u = (case f of UsernameField \<Rightarrow> username u | EmailField \<Rightarrow> email u)"

definition demo_findOne :: "user list \<Rightarrow> field \<Rightarrow> string option \<Rightarrow> string option \<Rightarrow> string option
    \<Rightarrow> error + user option" where
  "demo_findOne docs f v sel pop = Inr (find (\<lambda>d. field_of f d = v) docs)"

definition demo_save :: "user list \<Rightarrow> user \<Rightarrow> error + user list" where
  "demo_save docs u =
     Inr (if uid u \<in> set (map uid docs)
          then map (\<lambda>d. if uid d = uid u then u else d) docs
          else docs @ [u])"

definition demo_env :: "user list env" where
  "demo_env = \<lparr>
     randomBytes = demo_randomBytes,
     pbkdf2 = demo_pbkdf2,
     toString = demo_toString,
     toLowerCase = demo_toLowerCase,
     format = demo_format,
     findOne = demo_findOne,
     save = demo_save \<rparr>"

text \<open>Small hashing parameters, one iteration as in the tests of the repository.\<close>

definition small_options :: plugin_options where
  "small_options = no_options\<lparr>o_saltlen := Some 2, o_iterations := Some 1, o_keylen := Some 4\<rparr>"

definition plain_opts :: options where
  "plain_opts = defaults small_options"

definition limit_opts :: options where
  "limit_opts = defaults (small_options\<lparr>o_limitAttempts := True\<rparr>)"

text \<open>The user \<^verbatim>\<open>hugo\<close> of the tests, as a plain object and as the document
  \<^verbatim>\<open>setPassword('pw')\<close> leaves behind in the concrete environment (created at clock
  reading \<open>5000\<close>).\<close>

definition hugo_plain :: plain where
  "hugo_plain = \<lparr>p_username = Some ''hugo'', p_email = Some ''E@x.com'', p_hash = None,
     p_salt = None, p_attempts = None, p_lastLogin = None\<rparr>"

definition hugo :: user where
  "hugo = \<lparr>uid = 1, username = Some ''hugo'', email = Some ''e@x.com'',
     hash = Some ''70773261'', salt = Some ''2a2a'', attempts = 0, lastLogin = 5000\<rparr>"

definition empty_world :: "user list world" where
  "empty_world = \<lparr>store = [], log = []\<rparr>"

definition hugo_world :: "user list world" where
  "hugo_world = \<lparr>store = [hugo], log = []\<rparr>"

definition hugo_failed :: user where
  "hugo_failed = hugo\<lparr>attempts := 2\<rparr>"

text \<open>The same user with \<open>2 ^ 53\<close> failures on record.\<close>

definition hugo_maxed :: user where
  "hugo_maxed = hugo\<lparr>attempts := 9007199254740992\<rparr>"

text \<open>Three more configurations: a negative cap on the delay, a negative interval, and
  one generic message for every failure.\<close>

definition neg_cap_opts :: options where
  "neg_cap_opts = defaults (small_options\<lparr>o_limitAttempts := True, o_maxInterval := Some (- 1)\<rparr>)"

definition neg_interval_opts :: options where
  "neg_interval_opts =
     defaults (small_options\<lparr>o_limitAttempts := True, o_interval := Some (- 100)\<rparr>)"

definition generic_opts :: options where
  "generic_opts = defaults (small_options\<lparr>o_limitAttempts := True,
     o_incorrectPasswordError := Some ''Login failed'',
     o_noSaltValueStoredError := Some ''Login failed'',
     o_attemptTooSoonError := Some ''Login failed''\<rparr>)"

text \<open>Candidates for registration: without user name, without e-mail, and with the e-mail
  of \<^verbatim>\<open>hugo\<close> under another name.\<close>

definition no_name :: candidate where
  "no_name = Plain (hugo_plain\<lparr>p_username := None\<rparr>)"

definition no_mail :: candidate where
  "no_mail = Plain (hugo_plain\<lparr>p_email := None\<rparr>)"

definition anna :: candidate where
  "anna = Plain (hugo_plain\<lparr>p_username := Some ''anna''\<rparr>)"

section \<open>Properties\<close>

subsection \<open>Saving changes none of the credential fields\<close>

lemma preSave_fields:
  "preSave opts env u = Inr u' \<Longrightarrow>
     uid u' = uid u \<and> hash u' = hash u \<and> salt u' = salt u \<and>
     attempts u' = attempts u \<and> lastLogin u' = lastLogin u"
  by (auto simp: preSave_def Let_def split: if_splits)

lemma doc_save_fields:
  "doc_save opts env u w = (r, u', w') \<Longrightarrow>
     uid u' = uid u \<and> hash u' = hash u \<and> salt u' = salt u \<and>
     attempts u' = attempts u \<and> lastLogin u' = lastLogin u"
  by (auto simp: doc_save_def split: sum.splits dest: preSave_fields)

lemma doc_save_log:
  "doc_save opts env u w = (r, u', w') \<Longrightarrow> log w' = log w \<or> log w' = log w @ [Save u']"
  by (auto simp: doc_save_def split: sum.splits)

lemma save_unchecked_fields:
  "save_unchecked opts env u w = (u', w') \<Longrightarrow>
     uid u' = uid u \<and> hash u' = hash u \<and> salt u' = salt u \<and>
     attempts u' = attempts u \<and> lastLogin u' = lastLogin u"
  unfolding save_unchecked_def by (metis doc_save_fields prod.collapse)

lemma save_unchecked_log:
  "save_unchecked opts env u w = (u', w') \<Longrightarrow> log w' = log w \<or> log w' = log w @ [Save u']"
  unfolding save_unchecked_def by (metis doc_save_log prod.collapse)

lemma save_unchecked_hash_events:
  "save_unchecked opts env u w = (u', w') \<Longrightarrow>
     filter is_hash_event (log w') = filter is_hash_event (log w)"
  by (drule save_unchecked_log) auto

subsection \<open>The delay\<close>

text \<open>The delay never exceeds \<^verbatim>\<open>maxInterval\<close>. For a positive \<^verbatim>\<open>interval\<close> it is
  \<open>min(maxInterval, interval ^ ln(attempts + 1))\<close>; when the power is \<^verbatim>\<open>NaN\<close> it is
  \<^verbatim>\<open>maxInterval\<close>, as for a negative \<^verbatim>\<open>interval\<close> after two failures.\<close>

lemma calculatedInterval_le_max: "calculatedInterval opts u \<le> maxInterval opts"
  by (simp add: calculatedInterval_def number_less_def split: number.splits)

lemma calculatedInterval_positive:
  "0 < interval opts \<Longrightarrow>
     calculatedInterval opts u =
       min (maxInterval opts) (interval opts powr ln (real (attempts u) + 1))"
  by (simp add: calculatedInterval_def attemptsInterval_def number_less_def Math_pow_def
      Math_log_def min_def)

lemma calculatedInterval_NaN:
  "attemptsInterval opts u = NaN \<Longrightarrow> calculatedInterval opts u = maxInterval opts"
  by (simp add: calculatedInterval_def number_less_def)

lemma exp_1_less_3: "exp 1 < (3::real)"
proof -
  have "exp (1/4 :: real) \<le> 1 + 1/4 + (1/4)\<^sup>2" by (rule exp_bound) simp_all
  then have b: "exp (1/4::real) \<le> 21/16" by (simp add: power2_eq_square)
  have "exp (1::real) = exp (real 4 * (1/4))" by simp
  also have "\<dots> = exp (1/4) ^ 4" by (rule exp_of_nat_mult)
  also have "\<dots> \<le> (21/16) ^ 4" using b by (intro power_mono) simp_all
  also have "\<dots> < 3" by (simp add: power4_eq_xxxx)
  finally show ?thesis .
qed

lemma ln_3_between: "1 < ln (3::real)" "ln (3::real) < 2"
proof -
  have "ln (exp 1) < ln (3::real)" using exp_1_less_3 by (subst ln_less_cancel_iff) simp_all
  then show "1 < ln (3::real)" by simp
  have "(2::real) \<le> exp 1" using exp_ge_add_one_self[of "1::real"] by simp
  then have "(2::real) ^ 2 \<le> exp 1 ^ 2" by (intro power_mono) simp_all
  also have "exp (1::real) ^ 2 = exp (real 2 * 1)" by (rule exp_of_nat_mult[symmetric])
  finally have "(3::real) < exp 2" by simp
  then have "ln (3::real) < ln (exp 2)" by (subst ln_less_cancel_iff) simp_all
  then show "ln (3::real) < 2" by simp
qed

lemma Math_pow_negative_log_3: "x < 0 \<Longrightarrow> Math_pow x (Math_log 3) = NaN"
proof -
  assume x: "x < 0"
  from ln_3_between have "\<lfloor>ln (3::real)\<rfloor> = 1" by (simp add: floor_eq_iff)
  with ln_3_between have "real_of_int \<lfloor>ln (3::real)\<rfloor> \<noteq> ln 3" by simp
  with x ln_3_between show ?thesis by (simp add: Math_pow_def Math_log_def)
qed

lemma negative_interval_delay:
  "interval opts < 0 \<Longrightarrow> attempts u = 2 \<Longrightarrow> calculatedInterval opts u = maxInterval opts"
  by (rule calculatedInterval_NaN) (simp add: attemptsInterval_def Math_pow_negative_log_3)

text \<open>So with \<^verbatim>\<open>interval: -100\<close> and two failures on record an attempt 100000 ms after the
  last one is turned away: the delay is the default \<^verbatim>\<open>maxInterval\<close> of 300000 ms.\<close>

lemma negative_interval_too_soon:
  "calculatedInterval neg_interval_opts hugo_failed = 300000 \<and>
   fst (authenticate neg_interval_opts demo_env 105000 105000 password hugo_failed w)
     = Rejected \<lparr>result = None,
                 message = ''Login attempted too soon after previous attempt''\<rparr>"
proof -
  have o: "limitAttempts neg_interval_opts" "interval neg_interval_opts = - 100"
    "maxInterval neg_interval_opts = 300000"
    "attemptTooSoonError neg_interval_opts = ''Login attempted too soon after previous attempt''"
    by (simp_all add: neg_interval_opts_def defaults_def small_options_def no_options_def
        or_real_def or_str_def)
  have d: "calculatedInterval neg_interval_opts hugo_failed = 300000"
    using negative_interval_delay[of neg_interval_opts hugo_failed]
    by (simp add: o hugo_failed_def hugo_def)
  then have "throttled neg_interval_opts 105000 hugo_failed"
    by (simp add: throttled_def o hugo_failed_def hugo_def)
  then have "fst (authenticate neg_interval_opts demo_env 105000 105000 password hugo_failed w)
     = Rejected \<lparr>result = None, message = attemptTooSoonError neg_interval_opts\<rparr>"
    by (simp add: authenticate_def split: prod.splits)
  with d show ?thesis by (simp add: o)
qed

text \<open>After two failures the default interval of 100 ms has grown beyond 100 ms.\<close>

lemma powr_100_ln_3: "(100::real) \<le> 100 powr ln 3"
proof -
  have "exp 1 \<le> (3::real)" by (rule exp_le)
  then have l: "1 \<le> ln (3::real)" by (simp add: ln_ge_iff)
  have "(100::real) powr 1 \<le> 100 powr ln 3"
    using l by (intro powr_mono) simp_all
  then show ?thesis by simp
qed

lemma hugo_failed_delay:
  "interval opts = 100 \<Longrightarrow> maxInterval opts = 300000 \<Longrightarrow>
     100 \<le> calculatedInterval opts hugo_failed"
  using powr_100_ln_3
  by (simp add: calculatedInterval_positive hugo_failed_def hugo_def)

lemma hugo_failed_throttled:
  "interval opts = 100 \<Longrightarrow> maxInterval opts = 300000 \<Longrightarrow> limitAttempts opts \<Longrightarrow>
     throttled opts 5050 hugo_failed"
  using hugo_failed_delay[of opts]
  by (simp add: throttled_def hugo_failed_def hugo_def)

text \<open>Once \<^verbatim>\<open>maxInterval\<close> has elapsed no attempt is turned away.\<close>

lemma open_after_maxInterval:
  "maxInterval opts \<le> real_of_int (tcheck - lastLogin u) \<Longrightarrow> \<not> throttled opts tcheck u"
  using calculatedInterval_le_max[of opts u] by (simp add: throttled_def)

lemma hugo_failed_open:
  "maxInterval opts = 300000 \<Longrightarrow> \<not> throttled opts 405000 (hugo_failed\<lparr>salt := s\<rparr>)"
  by (rule open_after_maxInterval) (simp add: hugo_failed_def hugo_def)

lemma limit_opts_simps:
  "limitAttempts limit_opts" "interval limit_opts = 100" "maxInterval limit_opts = 300000"
  "usernameLowerCase limit_opts = False"
  "iterations limit_opts = 1" "keylen limit_opts = 4" "saltlen limit_opts = 2"
  "encoding limit_opts = ''hex''"
  "attemptTooSoonError limit_opts = ''Login attempted too soon after previous attempt''"
  "incorrectPasswordError limit_opts = ''Incorrect password''"
  "noSaltValueStoredError limit_opts =
     ''Authentication not possible. No salt value stored in mongodb collection!''"
  by (simp_all add: limit_opts_def defaults_def small_options_def no_options_def
      or_real_def or_str_def or_nat_def)

subsection \<open>The concrete environment, evaluated\<close>

lemma plain_opts_simps:
  "\<not> limitAttempts plain_opts"
  "usernameLowerCase plain_opts = False"
  "iterations plain_opts = 1" "keylen plain_opts = 4" "saltlen plain_opts = 2"
  "encoding plain_opts = ''hex''"
  "incorrectPasswordError plain_opts = ''Incorrect password''"
  "noSaltValueStoredError plain_opts =
     ''Authentication not possible. No salt value stored in mongodb collection!''"
  by (simp_all add: plain_opts_def defaults_def small_options_def no_options_def
      or_real_def or_str_def or_nat_def)

lemma demo_kdf_pw: "pbkdf2 demo_env (Some ''pw'') ''2a2a'' n 4 = Inr [0x70, 0x77, 0x32, 0x61]"
  by (simp add: demo_env_def demo_pbkdf2_def)

lemma demo_kdf_wrong: "pbkdf2 demo_env (Some ''wrong'') ''2a2a'' n 4 = Inr [0x77, 0x72, 0x6F, 0x6E]"
  by (simp add: demo_env_def demo_pbkdf2_def)

lemma demo_hex_pw: "toString demo_env ''hex'' [0x70, 0x77, 0x32, 0x61] = ''70773261''"
  by (simp add: demo_env_def demo_toString_def hex_of_byte_def hex_digit_def)

lemma demo_hex_wrong: "toString demo_env ''hex'' [0x77, 0x72, 0x6F, 0x6E] = ''77726f6e''"
  by (simp add: demo_env_def demo_toString_def hex_of_byte_def hex_digit_def)


lemma demo_save_hugo:
  "uid u = 1 \<Longrightarrow> username u = Some ''hugo'' \<Longrightarrow> email u = Some ''e@x.com'' \<Longrightarrow> uid d = 1 \<Longrightarrow>
   save_unchecked limit_opts demo_env u \<lparr>store = [d], log = l\<rparr>
     = (u, \<lparr>store = [u], log = l @ [Save u]\<rparr>)"
  by (simp add: save_unchecked_def doc_save_def preSave_def limit_opts_simps
        truthy_def demo_env_def demo_save_def demo_toLowerCase_def lower_char_def)

lemma hugo_failed_simps:
  "uid hugo_failed = 1" "username hugo_failed = Some ''hugo''" "email hugo_failed = Some ''e@x.com''"
  "hash hugo_failed = Some ''70773261''" "salt hugo_failed = Some ''2a2a''"
  "attempts hugo_failed = 2" "lastLogin hugo_failed = 5000"
  by (simp_all add: hugo_failed_def hugo_def)

lemma hugo_simps:
  "uid hugo = 1" "username hugo = Some ''hugo''" "email hugo = Some ''e@x.com''"
  "hash hugo = Some ''70773261''" "salt hugo = Some ''2a2a''"
  "attempts hugo = 0" "lastLogin hugo = 5000"
  by (simp_all add: hugo_def)


lemma demo_salt: "randomBytes demo_env 2 = Inr [0x2A, 0x2A]"
  by (simp add: demo_env_def demo_randomBytes_def numeral_2_eq_2)

lemma demo_hex_salt: "toString demo_env ''hex'' [0x2A, 0x2A] = ''2a2a''"
  by (simp add: demo_env_def demo_toString_def hex_of_byte_def hex_digit_def)

lemma setPassword_hugo:
  "setPassword limit_opts demo_env (Some ''pw'') (hugo_failed\<lparr>hash := None, salt := None\<rparr>)
       \<lparr>store = [hugo_failed], log = []\<rparr>
     = (Inr hugo_failed,
        \<lparr>store = [hugo_failed], log = [RandomBytes 2, Pbkdf2 (Some ''pw'') ''2a2a'' 1 4]\<rparr>)"
  by (simp add: setPassword_def Let_def truthy_def limit_opts_simps demo_salt demo_hex_salt
      demo_kdf_pw demo_hex_pw hugo_failed_def hugo_def)

lemma neg_cap_opts_simps:
  "limitAttempts neg_cap_opts" "interval neg_cap_opts = 100" "maxInterval neg_cap_opts = - 1"
  "usernameLowerCase neg_cap_opts = False"
  "iterations neg_cap_opts = 1" "keylen neg_cap_opts = 4" "encoding neg_cap_opts = ''hex''"
  by (simp_all add: neg_cap_opts_def defaults_def small_options_def no_options_def
      or_real_def or_str_def or_nat_def)

subsection \<open>What a successful \<^verbatim>\<open>setPassword\<close> leaves behind\<close>

lemma setPassword_success:
  assumes "setPassword opts env password u w = (Inr u1, w1)"
  shows "truthy password \<and>
    (\<exists>buf hashRaw. randomBytes env (saltlen opts) = Inr buf \<and>
       pbkdf2 env password (toString env (encoding opts) buf) (iterations opts) (keylen opts) = Inr hashRaw \<and>
       u1 = u\<lparr>hash := Some (toString env (encoding opts) hashRaw),
               salt := Some (toString env (encoding opts) buf)\<rparr>)"
proof -
  from assms have t: "truthy password"
    by (simp add: setPassword_def split: if_splits)
  from assms t obtain buf where b: "randomBytes env (saltlen opts) = Inr buf"
    by (cases "randomBytes env (saltlen opts)") (simp_all add: setPassword_def)
  let ?s = "toString env (encoding opts) buf"
  from assms t b obtain hashRaw where
    k: "pbkdf2 env password ?s (iterations opts) (keylen opts) = Inr hashRaw"
    by (cases "pbkdf2 env password ?s (iterations opts) (keylen opts)")
       (simp_all add: setPassword_def Let_def)
  from assms t b k have "u1 = u\<lparr>hash := Some (toString env (encoding opts) hashRaw), salt := Some ?s\<rparr>"
    by (simp add: setPassword_def Let_def)
  with t b k show ?thesis by blast
qed

subsection \<open>An attempt inside the delay\<close>

text \<open>
  Claim C2. With throttling enabled, an attempt whose clock reading \<open>tcheck\<close> satisfies
  the test of line 120, \<open>tcheck - lastLogin < calculatedInterval\<close>, writes the clock
  reading \<open>tset\<close> taken at the write into \<open>lastLogin\<close>, saves the document, and hands
  \<open>(false, {message: attemptTooSoonError})\<close> to the callback; \<open>attempts\<close> keeps its value
  and no key derivation is added to the log. For a positive \<^verbatim>\<open>interval\<close> the delay is
  \<open>min(maxInterval, interval ^ ln(attempts + 1))\<close>, by \<open>calculatedInterval_positive\<close>;
  the theorem also covers the attempts the code turns away when the power is \<^verbatim>\<open>NaN\<close> and
  the delay \<^verbatim>\<open>maxInterval\<close>. The claim's single \<open>now\<close> is the case \<open>tcheck = tset\<close>.
\<close>

theorem authenticate_too_soon:
  assumes "limitAttempts opts"
    and "real_of_int (tcheck - lastLogin u) < calculatedInterval opts u"
  shows "case authenticate opts env tcheck tset password u w of (r, u', w') \<Rightarrow>
           r = Rejected \<lparr>result = None, message = attemptTooSoonError opts\<rparr> \<and>
           (u', w') = save_unchecked opts env (u\<lparr>lastLogin := tset\<rparr>) w \<and>
           lastLogin u' = tset \<and>
           attempts u' = attempts u \<and>
           filter is_hash_event (log w') = filter is_hash_event (log w)"
proof -
  obtain u' w' where s: "save_unchecked opts env (u\<lparr>lastLogin := tset\<rparr>) w = (u', w')"
    by (cases "save_unchecked opts env (u\<lparr>lastLogin := tset\<rparr>) w")
  from assms have thr: "throttled opts tcheck u"
    by (simp add: throttled_def)
  have a: "authenticate opts env tcheck tset password u w =
        (Rejected \<lparr>result = None, message = attemptTooSoonError opts\<rparr>, u', w')"
    using thr s by (simp add: authenticate_def)
  from save_unchecked_fields[OF s] save_unchecked_hash_events[OF s] a s
  show ?thesis by simp
qed

theorem authenticate_too_soon_witness:
  "limitAttempts limit_opts \<and>
   real_of_int (5050 - lastLogin hugo_failed) < calculatedInterval limit_opts hugo_failed \<and>
   authenticate limit_opts demo_env 5050 5050 (Some ''pw'') hugo_failed
       \<lparr>store = [hugo_failed], log = []\<rparr>
     = (Rejected \<lparr>result = None,
                  message = ''Login attempted too soon after previous attempt''\<rparr>,
        hugo_failed\<lparr>lastLogin := 5050\<rparr>,
        \<lparr>store = [hugo_failed\<lparr>lastLogin := 5050\<rparr>],
         log = [Save (hugo_failed\<lparr>lastLogin := 5050\<rparr>)]\<rparr>)"
proof -
  have h1: "limitAttempts limit_opts" by (simp add: limit_opts_simps)
  have h2: "real_of_int (5050 - lastLogin hugo_failed) < calculatedInterval limit_opts hugo_failed"
    using hugo_failed_delay[of limit_opts]
    by (simp add: limit_opts_simps hugo_failed_def hugo_def)
  have s: "save_unchecked limit_opts demo_env (hugo_failed\<lparr>lastLogin := 5050\<rparr>)
       \<lparr>store = [hugo_failed], log = []\<rparr>
     = (hugo_failed\<lparr>lastLogin := 5050\<rparr>,
        \<lparr>store = [hugo_failed\<lparr>lastLogin := 5050\<rparr>],
         log = [Save (hugo_failed\<lparr>lastLogin := 5050\<rparr>)]\<rparr>)"
    by (simp add: save_unchecked_def doc_save_def preSave_def limit_opts_simps
        hugo_failed_def hugo_def truthy_def demo_env_def demo_save_def
        demo_toLowerCase_def lower_char_def)
  from authenticate_too_soon[OF h1 h2, where env = demo_env and tset = 5050
      and password = "Some ''pw''" and w = "\<lparr>store = [hugo_failed], log = []\<rparr>"]
  show ?thesis using h1 h2 s by (auto simp: limit_opts_simps)
qed

subsection \<open>An attempt after the delay\<close>

text \<open>
  Claim C3. With throttling enabled, a document whose delay has elapsed at \<open>tcheck\<close> and
  that has a salt, authenticated with the correct secret (the derived key, encoded, is
  the stored hash): \<open>lastLogin\<close> becomes the clock reading at the write, \<open>attempts\<close>
  becomes \<open>0\<close>, the document is saved, and the callback receives the document.
\<close>

theorem authenticate_correct_secret:
  assumes "limitAttempts opts"
    and "\<not> real_of_int (tcheck - lastLogin u) < calculatedInterval opts u"
    and "truthy (salt u)"
    and "pbkdf2 env password (the (salt u)) (iterations opts) (keylen opts) = Inr hashRaw"
    and "hash u = Some (toString env (encoding opts) hashRaw)"
  shows "case authenticate opts env tcheck tset password u w of (r, u', w') \<Rightarrow>
           r = Authenticated u' \<and>
           (u', w') = save_unchecked opts env (u\<lparr>lastLogin := tset, attempts := 0\<rparr>)
              (w\<lparr>log := log w @
                 [Pbkdf2 password (the (salt u)) (iterations opts) (keylen opts)]\<rparr>) \<and>
           lastLogin u' = tset \<and> attempts u' = 0 \<and>
           uid u' = uid u \<and> hash u' = hash u \<and> salt u' = salt u"
proof -
  let ?w1 = "w\<lparr>log := log w @ [Pbkdf2 password (the (salt u)) (iterations opts) (keylen opts)]\<rparr>"
  obtain u' w' where
    s: "save_unchecked opts env (u\<lparr>lastLogin := tset, attempts := 0\<rparr>) ?w1 = (u', w')"
    by (cases "save_unchecked opts env (u\<lparr>lastLogin := tset, attempts := 0\<rparr>) ?w1")
  from assms(2) have thr: "\<not> throttled opts tcheck u"
    by (simp add: throttled_def)
  have a: "authenticate opts env tcheck tset password u w = (Authenticated u', u', w')"
    using thr assms(1,3,4,5) s by (simp add: authenticate_def)
  from save_unchecked_fields[OF s] a s show ?thesis by simp
qed

theorem authenticate_correct_secret_witness:
  "limitAttempts limit_opts \<and>
   \<not> real_of_int (405000 - lastLogin hugo_failed) < calculatedInterval limit_opts hugo_failed \<and>
   truthy (salt hugo_failed) \<and>
   pbkdf2 demo_env (Some ''pw'') (the (salt hugo_failed)) (iterations limit_opts)
     (keylen limit_opts) = Inr [0x70, 0x77, 0x32, 0x61] \<and>
   hash hugo_failed = Some (toString demo_env (encoding limit_opts) [0x70, 0x77, 0x32, 0x61]) \<and>
   authenticate limit_opts demo_env 405000 405000 (Some ''pw'') hugo_failed
       \<lparr>store = [hugo_failed], log = []\<rparr>
     = (Authenticated (hugo\<lparr>lastLogin := 405000\<rparr>), hugo\<lparr>lastLogin := 405000\<rparr>,
        \<lparr>store = [hugo\<lparr>lastLogin := 405000\<rparr>],
         log = [Pbkdf2 (Some ''pw'') ''2a2a'' 1 4, Save (hugo\<lparr>lastLogin := 405000\<rparr>)]\<rparr>)"
proof -
  have h1: "limitAttempts limit_opts" by (simp add: limit_opts_simps)
  have h2: "\<not> real_of_int (405000 - lastLogin hugo_failed)
       < calculatedInterval limit_opts hugo_failed"
    using calculatedInterval_le_max[of limit_opts hugo_failed]
    by (simp add: limit_opts_simps hugo_failed_simps)
  have h3: "truthy (salt hugo_failed)" by (simp add: truthy_def hugo_failed_simps)
  have h4: "pbkdf2 demo_env (Some ''pw'') (the (salt hugo_failed)) (iterations limit_opts)
     (keylen limit_opts) = Inr [0x70, 0x77, 0x32, 0x61]"
    by (simp add: limit_opts_simps hugo_failed_simps demo_kdf_pw)
  have h5: "hash hugo_failed = Some (toString demo_env (encoding limit_opts) [0x70, 0x77, 0x32, 0x61])"
    by (simp add: limit_opts_simps hugo_failed_simps demo_hex_pw)
  have e: "hugo_failed\<lparr>lastLogin := 405000, attempts := 0\<rparr> = hugo\<lparr>lastLogin := 405000\<rparr>"
    by (simp add: hugo_failed_def hugo_def)
  from authenticate_correct_secret[OF h1 h2 h3 h4 h5, where tset = 405000
      and w = "\<lparr>store = [hugo_failed], log = []\<rparr>"]
  show ?thesis using h1 h2 h3 h4 h5
    by (auto simp: e demo_save_hugo hugo_simps hugo_failed_simps limit_opts_simps)
qed

text \<open>
  Claim C4, as stated, fails: the counter is a double, and \<^verbatim>\<open>attempts + 1\<close> is \<^verbatim>\<open>attempts\<close>
  when \<^verbatim>\<open>attempts\<close> is \<open>2 ^ 53\<close>. A document with that many failures on record,
  authenticated with an incorrect secret after its delay, keeps its counter.
\<close>

theorem incorrect_secret_counter_stuck:
  "limitAttempts limit_opts \<and>
   \<not> real_of_int (405000 - lastLogin hugo_maxed) < calculatedInterval limit_opts hugo_maxed \<and>
   truthy (salt hugo_maxed) \<and>
   attempts hugo_maxed = 9007199254740992 \<and>
   authenticate limit_opts demo_env 405000 405000 (Some ''wrong'') hugo_maxed
       \<lparr>store = [hugo_maxed], log = []\<rparr>
     = (Rejected \<lparr>result = Some ''incorrectPassword'', message = ''Incorrect password''\<rparr>,
        hugo_maxed\<lparr>lastLogin := 405000\<rparr>,
        \<lparr>store = [hugo_maxed\<lparr>lastLogin := 405000\<rparr>],
         log = [Pbkdf2 (Some ''wrong'') ''2a2a'' 1 4,
                Save (hugo_maxed\<lparr>lastLogin := 405000\<rparr>)]\<rparr>)"
proof -
  have f: "uid hugo_maxed = 1" "username hugo_maxed = Some ''hugo''"
    "email hugo_maxed = Some ''e@x.com''" "hash hugo_maxed = Some ''70773261''"
    "salt hugo_maxed = Some ''2a2a''" "attempts hugo_maxed = 9007199254740992"
    "lastLogin hugo_maxed = 5000"
    by (simp_all add: hugo_maxed_def hugo_def)
  have o: "\<not> throttled limit_opts 405000 hugo_maxed"
    by (rule open_after_maxInterval) (simp add: limit_opts_simps f)
  then have h2: "\<not> real_of_int (405000 - lastLogin hugo_maxed)
                   < calculatedInterval limit_opts hugo_maxed"
    by (simp add: throttled_def limit_opts_simps)
  have p: "plus_one 9007199254740992 = 9007199254740992"
    by (simp add: plus_one_def)
  have e: "hugo_maxed\<lparr>lastLogin := 405000, attempts := 9007199254740992\<rparr>
             = hugo_maxed\<lparr>lastLogin := 405000\<rparr>"
    by (simp add: hugo_maxed_def)
  have a: "authenticate limit_opts demo_env 405000 405000 (Some ''wrong'') hugo_maxed
       \<lparr>store = [hugo_maxed], log = []\<rparr>
     = (Rejected \<lparr>result = Some ''incorrectPassword'', message = ''Incorrect password''\<rparr>,
        hugo_maxed\<lparr>lastLogin := 405000\<rparr>,
        \<lparr>store = [hugo_maxed\<lparr>lastLogin := 405000\<rparr>],
         log = [Pbkdf2 (Some ''wrong'') ''2a2a'' 1 4,
                Save (hugo_maxed\<lparr>lastLogin := 405000\<rparr>)]\<rparr>)"
    using o
    by (simp add: authenticate_def truthy_def limit_opts_simps f demo_kdf_wrong demo_hex_wrong
        p e demo_save_hugo)
  from h2 a show ?thesis by (simp add: limit_opts_simps truthy_def f)
qed

text \<open>
  Claim C4, amended. With throttling enabled, a document whose delay has elapsed at
  \<open>tcheck\<close>, that has a salt and fewer than \<open>2 ^ 53\<close> failures on record, authenticated
  with an incorrect secret (the derived key, encoded, differs from the stored hash):
  \<open>lastLogin\<close> becomes the clock reading at the write, \<open>attempts\<close> grows by exactly one,
  the document is saved, and the callback receives
  \<open>(false, {result: 'incorrectPassword', message: incorrectPasswordError})\<close>.
\<close>

theorem authenticate_incorrect_secret:
  assumes "limitAttempts opts"
    and "\<not> real_of_int (tcheck - lastLogin u) < calculatedInterval opts u"
    and "truthy (salt u)"
    and "pbkdf2 env password (the (salt u)) (iterations opts) (keylen opts) = Inr hashRaw"
    and "hash u \<noteq> Some (toString env (encoding opts) hashRaw)"
    and "attempts u < 2 ^ 53"
  shows "case authenticate opts env tcheck tset password u w of (r, u', w') \<Rightarrow>
           r = Rejected \<lparr>result = Some ''incorrectPassword'',
                          message = incorrectPasswordError opts\<rparr> \<and>
           (u', w') = save_unchecked opts env
              (u\<lparr>lastLogin := tset, attempts := attempts u + 1\<rparr>)
              (w\<lparr>log := log w @
                 [Pbkdf2 password (the (salt u)) (iterations opts) (keylen opts)]\<rparr>) \<and>
           lastLogin u' = tset \<and> attempts u' = attempts u + 1"
proof -
  let ?w1 = "w\<lparr>log := log w @ [Pbkdf2 password (the (salt u)) (iterations opts) (keylen opts)]\<rparr>"
  obtain u' w' where
    s: "save_unchecked opts env (u\<lparr>lastLogin := tset, attempts := attempts u + 1\<rparr>) ?w1 = (u', w')"
    by (cases "save_unchecked opts env (u\<lparr>lastLogin := tset, attempts := attempts u + 1\<rparr>) ?w1")
  from assms(2) have thr: "\<not> throttled opts tcheck u"
    by (simp add: throttled_def)
  have neq: "Some (toString env (encoding opts) hashRaw) \<noteq> hash u"
    using assms(5) by (rule not_sym)
  have inc: "plus_one (attempts u) = attempts u + 1"
    using assms(6) by (simp add: plus_one_def)
  have a: "authenticate opts env tcheck tset password u w =
      (Rejected \<lparr>result = Some ''incorrectPassword'', message = incorrectPasswordError opts\<rparr>,
       u', w')"
    using thr assms(1,3,4) neq s by (simp add: authenticate_def inc)
  from save_unchecked_fields[OF s] a s show ?thesis by simp
qed

theorem authenticate_incorrect_secret_witness:
  "limitAttempts limit_opts \<and>
   \<not> real_of_int (405000 - lastLogin hugo_failed) < calculatedInterval limit_opts hugo_failed \<and>
   truthy (salt hugo_failed) \<and>
   pbkdf2 demo_env (Some ''wrong'') (the (salt hugo_failed)) (iterations limit_opts)
     (keylen limit_opts) = Inr [0x77, 0x72, 0x6F, 0x6E] \<and>
   hash hugo_failed \<noteq> Some (toString demo_env (encoding limit_opts) [0x77, 0x72, 0x6F, 0x6E]) \<and>
   attempts hugo_failed < 2 ^ 53 \<and>
   authenticate limit_opts demo_env 405000 405000 (Some ''wrong'') hugo_failed
       \<lparr>store = [hugo_failed], log = []\<rparr>
     = (Rejected \<lparr>result = Some ''incorrectPassword'', message = ''Incorrect password''\<rparr>,
        hugo\<lparr>lastLogin := 405000, attempts := 3\<rparr>,
        \<lparr>store = [hugo\<lparr>lastLogin := 405000, attempts := 3\<rparr>],
         log = [Pbkdf2 (Some ''wrong'') ''2a2a'' 1 4,
                Save (hugo\<lparr>lastLogin := 405000, attempts := 3\<rparr>)]\<rparr>)"
proof -
  have h1: "limitAttempts limit_opts" by (simp add: limit_opts_simps)
  have h2: "\<not> real_of_int (405000 - lastLogin hugo_failed)
       < calculatedInterval limit_opts hugo_failed"
    using calculatedInterval_le_max[of limit_opts hugo_failed]
    by (simp add: limit_opts_simps hugo_failed_simps)
  have h3: "truthy (salt hugo_failed)" by (simp add: truthy_def hugo_failed_simps)
  have h4: "pbkdf2 demo_env (Some ''wrong'') (the (salt hugo_failed)) (iterations limit_opts)
     (keylen limit_opts) = Inr [0x77, 0x72, 0x6F, 0x6E]"
    by (simp add: limit_opts_simps hugo_failed_simps demo_kdf_wrong)
  have h5: "hash hugo_failed \<noteq> Some (toString demo_env (encoding limit_opts) [0x77, 0x72, 0x6F, 0x6E])"
    by (simp add: limit_opts_simps hugo_failed_simps demo_hex_wrong)
  have h6: "attempts hugo_failed < 2 ^ 53" by (simp add: hugo_failed_simps)
  have e: "hugo_failed\<lparr>lastLogin := 405000, attempts := Suc 2\<rparr> = hugo\<lparr>lastLogin := 405000, attempts := 3\<rparr>"
    by (simp add: hugo_failed_def hugo_def)
  from authenticate_incorrect_secret[OF h1 h2 h3 h4 h5 h6, where tset = 405000
      and w = "\<lparr>store = [hugo_failed], log = []\<rparr>"]
  show ?thesis using h1 h2 h3 h4 h5 h6
    by (auto simp: e demo_save_hugo hugo_simps hugo_failed_simps limit_opts_simps)
qed

subsection \<open>Without throttling\<close>

text \<open>
  Claim C9. When \<^verbatim>\<open>limitAttempts\<close> is not set, \<^verbatim>\<open>authenticate\<close> leaves the document as it
  was, whatever the outcome, leaves the store as it was and adds no save to the log.
\<close>

theorem authenticate_unlimited_frame:
  assumes "\<not> limitAttempts opts"
  shows "case authenticate opts env tcheck tset password u w of (r, u', w') \<Rightarrow>
           u' = u \<and> store w' = store w \<and>
           filter is_save_event (log w') = filter is_save_event (log w)"
  using assms by (simp add: authenticate_def throttled_def Let_def split: sum.splits)

theorem authenticate_unlimited_frame_witness:
  "\<not> limitAttempts plain_opts \<and>
   authenticate plain_opts demo_env 5000 5000 (Some ''pw'') hugo hugo_world
     = (Authenticated hugo, hugo, hugo_world\<lparr>log := [Pbkdf2 (Some ''pw'') ''2a2a'' 1 4]\<rparr>) \<and>
   authenticate plain_opts demo_env 5000 5000 (Some ''wrong'') hugo hugo_world
     = (Rejected \<lparr>result = Some ''incorrectPassword'', message = ''Incorrect password''\<rparr>,
        hugo, hugo_world\<lparr>log := [Pbkdf2 (Some ''wrong'') ''2a2a'' 1 4]\<rparr>) \<and>
   authenticate plain_opts demo_env 5000 5000 (Some ''pw'') (hugo\<lparr>salt := None\<rparr>) hugo_world
     = (Rejected \<lparr>result = None, message =
          ''Authentication not possible. No salt value stored in mongodb collection!''\<rparr>,
        hugo\<lparr>salt := None\<rparr>, hugo_world)"
proof -
  have h: "\<not> limitAttempts plain_opts" by (simp add: plain_opts_simps)
  have a1: "fst (authenticate plain_opts demo_env 5000 5000 (Some ''pw'') hugo hugo_world)
      = Authenticated hugo"
    by (simp add: authenticate_def throttled_def plain_opts_simps truthy_def hugo_simps
        demo_kdf_pw demo_hex_pw)
  have l1: "log (snd (snd (authenticate plain_opts demo_env 5000 5000 (Some ''pw'') hugo hugo_world)))
      = [Pbkdf2 (Some ''pw'') ''2a2a'' 1 4]"
    by (simp add: authenticate_def throttled_def plain_opts_simps truthy_def hugo_simps
        demo_kdf_pw demo_hex_pw hugo_world_def)
  have a2: "fst (authenticate plain_opts demo_env 5000 5000 (Some ''wrong'') hugo hugo_world)
      = Rejected \<lparr>result = Some ''incorrectPassword'', message = ''Incorrect password''\<rparr>"
    by (simp add: authenticate_def throttled_def plain_opts_simps truthy_def hugo_simps
        demo_kdf_wrong demo_hex_wrong)
  have l2: "log (snd (snd (authenticate plain_opts demo_env 5000 5000 (Some ''wrong'') hugo hugo_world)))
      = [Pbkdf2 (Some ''wrong'') ''2a2a'' 1 4]"
    by (simp add: authenticate_def throttled_def plain_opts_simps truthy_def hugo_simps
        demo_kdf_wrong demo_hex_wrong hugo_world_def)
  have a3: "fst (authenticate plain_opts demo_env 5000 5000 (Some ''pw'') (hugo\<lparr>salt := None\<rparr>) hugo_world)
      = Rejected \<lparr>result = None, message =
          ''Authentication not possible. No salt value stored in mongodb collection!''\<rparr>"
    by (simp add: authenticate_def throttled_def plain_opts_simps truthy_def)
  have l3: "log (snd (snd (authenticate plain_opts demo_env 5000 5000 (Some ''pw'') (hugo\<lparr>salt := None\<rparr>) hugo_world)))
      = []"
    by (simp add: authenticate_def throttled_def plain_opts_simps truthy_def hugo_world_def)
  from authenticate_unlimited_frame[OF h, where env = demo_env and tcheck = 5000 and tset = 5000
         and password = "Some ''pw''" and u = hugo and w = hugo_world]
       authenticate_unlimited_frame[OF h, where env = demo_env and tcheck = 5000 and tset = 5000
         and password = "Some ''wrong''" and u = hugo and w = hugo_world]
       authenticate_unlimited_frame[OF h, where env = demo_env and tcheck = 5000 and tset = 5000
         and password = "Some ''pw''" and u = "hugo\<lparr>salt := None\<rparr>" and w = hugo_world]
  show ?thesis using h a1 a2 a3 l1 l2 l3
    by (auto simp: hugo_world_def split: prod.splits)
qed

subsection \<open>Setting a password and authenticating with it\<close>

text \<open>
  Claim C1, as stated, fails: the throttle test comes before the key derivation, so a
  document that has just been given the password \<^verbatim>\<open>pw\<close> is turned away with
  \<^verbatim>\<open>attemptTooSoonError\<close> when the attempt with \<^verbatim>\<open>pw\<close> comes 50 ms after the last one and
  two failures are on record.
\<close>

theorem setPassword_then_authenticate_throttled:
  "setPassword limit_opts demo_env (Some ''pw'') (hugo_failed\<lparr>hash := None, salt := None\<rparr>)
       \<lparr>store = [hugo_failed], log = []\<rparr>
     = (Inr hugo_failed,
        \<lparr>store = [hugo_failed], log = [RandomBytes 2, Pbkdf2 (Some ''pw'') ''2a2a'' 1 4]\<rparr>) \<and>
   fst (authenticate limit_opts demo_env 5050 5050 (Some ''pw'') hugo_failed
       \<lparr>store = [hugo_failed], log = [RandomBytes 2, Pbkdf2 (Some ''pw'') ''2a2a'' 1 4]\<rparr>)
     = Rejected \<lparr>result = None,
                 message = ''Login attempted too soon after previous attempt''\<rparr>"
proof -
  have "throttled limit_opts 5050 hugo_failed"
    by (rule hugo_failed_throttled) (simp_all add: limit_opts_simps)
  then have "fst (authenticate limit_opts demo_env 5050 5050 (Some ''pw'') hugo_failed
       \<lparr>store = [hugo_failed], log = [RandomBytes 2, Pbkdf2 (Some ''pw'') ''2a2a'' 1 4]\<rparr>)
     = Rejected \<lparr>result = None,
                 message = ''Login attempted too soon after previous attempt''\<rparr>"
    by (simp add: authenticate_def limit_opts_simps split: prod.splits)
  with setPassword_hugo show ?thesis by simp
qed

text \<open>
  Claim C1, amended. If \<^verbatim>\<open>setPassword\<close> succeeds on a document (which needs a non-empty
  secret), the salt it stored is not the empty string, and the attempt is not turned
  away by the throttle (throttling is off, or the delay has elapsed), then the key
  derived from the same secret and the stored salt, with the same iteration count, key
  length and encoding, is the stored hash, and \<^verbatim>\<open>authenticate\<close> hands the document to the
  callback, in whatever world the attempt is made.
\<close>

theorem setPassword_then_authenticate:
  assumes "setPassword opts env password u w = (Inr u1, w1)"
    and "truthy (salt u1)"
    and "\<not> throttled opts tcheck u1"
  shows "\<exists>hashRaw.
           pbkdf2 env password (the (salt u1)) (iterations opts) (keylen opts) = Inr hashRaw \<and>
           hash u1 = Some (toString env (encoding opts) hashRaw) \<and>
           (case authenticate opts env tcheck tset password u1 w2 of (r, u2, w3) \<Rightarrow>
              r = Authenticated u2 \<and> uid u2 = uid u1 \<and> hash u2 = hash u1 \<and> salt u2 = salt u1)"
proof -
  from setPassword_success[OF assms(1)] obtain buf hashRaw where
    k: "pbkdf2 env password (toString env (encoding opts) buf) (iterations opts) (keylen opts) = Inr hashRaw"
    and u1: "u1 = u\<lparr>hash := Some (toString env (encoding opts) hashRaw),
               salt := Some (toString env (encoding opts) buf)\<rparr>"
    by blast
  have k': "pbkdf2 env password (the (salt u1)) (iterations opts) (keylen opts) = Inr hashRaw"
    using k u1 by simp
  have h: "hash u1 = Some (toString env (encoding opts) hashRaw)"
    using u1 by simp
  let ?w = "w2\<lparr>log := log w2 @ [Pbkdf2 password (the (salt u1)) (iterations opts) (keylen opts)]\<rparr>"
  have a: "case authenticate opts env tcheck tset password u1 w2 of (r, u2, w3) \<Rightarrow>
              r = Authenticated u2 \<and> uid u2 = uid u1 \<and> hash u2 = hash u1 \<and> salt u2 = salt u1"
  proof (cases "limitAttempts opts")
    case True
    obtain u2 w3 where
      s: "save_unchecked opts env (u1\<lparr>lastLogin := tset, attempts := 0\<rparr>) ?w = (u2, w3)"
      by (cases "save_unchecked opts env (u1\<lparr>lastLogin := tset, attempts := 0\<rparr>) ?w")
    have "authenticate opts env tcheck tset password u1 w2 = (Authenticated u2, u2, w3)"
      using True assms(2,3) k' h s by (simp add: authenticate_def)
    with save_unchecked_fields[OF s] show ?thesis by simp
  next
    case False
    then show ?thesis using assms(2,3) k' h by (simp add: authenticate_def)
  qed
  show ?thesis
  proof (intro exI conjI)
    show "pbkdf2 env password (the (salt u1)) (iterations opts) (keylen opts) = Inr hashRaw"
      by (rule k')
    show "hash u1 = Some (toString env (encoding opts) hashRaw)" by (rule h)
    show "case authenticate opts env tcheck tset password u1 w2 of (r, u2, w3) \<Rightarrow>
              r = Authenticated u2 \<and> uid u2 = uid u1 \<and> hash u2 = hash u1 \<and> salt u2 = salt u1"
      by (rule a)
  qed
qed

theorem setPassword_then_authenticate_witness:
  "setPassword limit_opts demo_env (Some ''pw'') (hugo_failed\<lparr>hash := None, salt := None\<rparr>)
       \<lparr>store = [hugo_failed], log = []\<rparr>
     = (Inr hugo_failed,
        \<lparr>store = [hugo_failed], log = [RandomBytes 2, Pbkdf2 (Some ''pw'') ''2a2a'' 1 4]\<rparr>) \<and>
   truthy (salt hugo_failed) \<and>
   \<not> throttled limit_opts 405000 hugo_failed \<and>
   fst (authenticate limit_opts demo_env 405000 405000 (Some ''pw'') hugo_failed
       \<lparr>store = [hugo_failed], log = [RandomBytes 2, Pbkdf2 (Some ''pw'') ''2a2a'' 1 4]\<rparr>)
     = Authenticated (hugo\<lparr>lastLogin := 405000\<rparr>)"
proof -
  let ?w = "\<lparr>store = [hugo_failed], log = [RandomBytes 2, Pbkdf2 (Some ''pw'') ''2a2a'' 1 4]\<rparr>"
  have h2: "truthy (salt hugo_failed)" by (simp add: truthy_def hugo_failed_simps)
  have h3: "\<not> throttled limit_opts 405000 hugo_failed"
    by (rule open_after_maxInterval) (simp add: limit_opts_simps hugo_failed_simps)
  have e: "hugo_failed\<lparr>lastLogin := 405000, attempts := 0\<rparr> = hugo\<lparr>lastLogin := 405000\<rparr>"
    by (simp add: hugo_failed_def hugo_def)
  have a: "snd (authenticate limit_opts demo_env 405000 405000 (Some ''pw'') hugo_failed ?w)
      = save_unchecked limit_opts demo_env (hugo\<lparr>lastLogin := 405000\<rparr>)
          (?w\<lparr>log := log ?w @ [Pbkdf2 (Some ''pw'') ''2a2a'' 1 4]\<rparr>)"
    using h3 by (simp add: authenticate_def truthy_def limit_opts_simps hugo_failed_simps
        demo_kdf_pw demo_hex_pw e split: prod.splits)
  from setPassword_then_authenticate[OF setPassword_hugo h2 h3, where tset = 405000 and ?w2.0 = ?w]
  have "fst (authenticate limit_opts demo_env 405000 405000 (Some ''pw'') hugo_failed ?w)
     = Authenticated (fst (snd (authenticate limit_opts demo_env 405000 405000 (Some ''pw'') hugo_failed ?w)))"
    by (auto split: prod.splits)
  also have "\<dots> = Authenticated (hugo\<lparr>lastLogin := 405000\<rparr>)"
    by (subst a) (simp add: demo_save_hugo hugo_simps hugo_failed_simps)
  finally show ?thesis using setPassword_hugo h2 h3 by simp
qed

subsection \<open>The delay with no failure on record\<close>

text \<open>
  Claim C10, as stated, fails: the delay is capped by \<^verbatim>\<open>maxInterval\<close>, which the options
  may set below 1 ms. With \<^verbatim>\<open>maxInterval: -1\<close> the delay of a document without failures
  is \<open>-1\<close>, and an attempt in the very millisecond of \<open>lastLogin\<close> is let through.
\<close>

theorem zero_failures_negative_cap:
  "limitAttempts neg_cap_opts \<and> attempts hugo = 0 \<and>
   calculatedInterval neg_cap_opts hugo = - 1 \<and>
   5000 - lastLogin hugo < 1 \<and>
   fst (authenticate neg_cap_opts demo_env 5000 5000 (Some ''pw'') hugo hugo_world)
     = Authenticated hugo"
proof -
  have c: "calculatedInterval neg_cap_opts hugo = - 1"
    by (simp add: calculatedInterval_def attemptsInterval_def number_less_def Math_pow_def
        Math_log_def neg_cap_opts_simps hugo_simps)
  have t: "\<not> throttled neg_cap_opts 5000 hugo"
    by (simp add: throttled_def c hugo_simps)
  have s: "save_unchecked neg_cap_opts demo_env hugo w = (hugo, w\<lparr>store := [hugo], log := log w @ [Save hugo]\<rparr>)"
    if "store w = [hugo]" for w :: "user list world"
    using that by (simp add: save_unchecked_def doc_save_def preSave_def neg_cap_opts_simps
        truthy_def demo_env_def demo_save_def demo_toLowerCase_def lower_char_def hugo_def)
  have e: "hugo\<lparr>lastLogin := 5000, attempts := 0\<rparr> = hugo" by (simp add: hugo_def)
  have "fst (authenticate neg_cap_opts demo_env 5000 5000 (Some ''pw'') hugo hugo_world)
     = Authenticated hugo"
    using t by (simp add: authenticate_def truthy_def neg_cap_opts_simps hugo_simps
        demo_kdf_pw demo_hex_pw e s hugo_world_def)
  with c show ?thesis by (simp add: neg_cap_opts_simps hugo_simps)
qed

text \<open>
  Claim C10, amended. With throttling enabled and \<^verbatim>\<open>maxInterval\<close> at least 1 ms (the
  default is 300000), a document with \<open>attempts = 0\<close> has the delay
  \<open>min(maxInterval, interval ^ ln 1) = 1\<close> ms, and an attempt whose clock reading is less
  than 1 ms after \<open>lastLogin\<close> is turned away with \<^verbatim>\<open>attemptTooSoonError\<close>. A document
  made from a plain object that gives neither field has \<open>attempts = 0\<close> and, as
  \<open>lastLogin\<close>, the clock reading at its construction, so the same holds of it.
\<close>

theorem zero_failures_delay:
  assumes "limitAttempts opts" and "1 \<le> maxInterval opts"
  shows "(attempts u = 0 \<longrightarrow>
            calculatedInterval opts u = 1 \<and>
            (tcheck - lastLogin u < 1 \<longrightarrow>
               fst (authenticate opts env tcheck tset password u w)
                 = Rejected \<lparr>result = None, message = attemptTooSoonError opts\<rparr>)) \<and>
         (p_attempts p = None \<and> p_lastLogin p = None \<longrightarrow>
            attempts (new_user i tnew p) = 0 \<and> lastLogin (new_user i tnew p) = tnew \<and>
            (tcheck - tnew < 1 \<longrightarrow>
               fst (authenticate opts env tcheck tset password (new_user i tnew p) w)
                 = Rejected \<lparr>result = None, message = attemptTooSoonError opts\<rparr>))"
proof -
  have d: "calculatedInterval opts v = 1" if "attempts v = 0" for v
    using that assms(2)
    by (simp add: calculatedInterval_def attemptsInterval_def number_less_def Math_pow_def
        Math_log_def)
  have r: "fst (authenticate opts env tcheck tset password v w)
             = Rejected \<lparr>result = None, message = attemptTooSoonError opts\<rparr>"
    if "attempts v = 0" and "tcheck - lastLogin v < 1" for v
  proof -
    have "throttled opts tcheck v"
      using that assms(1) by (simp add: throttled_def d)
    then show ?thesis by (simp add: authenticate_def split: prod.splits)
  qed
  have n: "attempts (new_user i tnew p) = 0 \<and> lastLogin (new_user i tnew p) = tnew"
    if "p_attempts p = None \<and> p_lastLogin p = None"
    using that by (simp add: new_user_def)
  show ?thesis
  proof (intro conjI impI)
    assume "attempts u = 0" then show "calculatedInterval opts u = 1" by (rule d)
  next
    assume "attempts u = 0" and "tcheck - lastLogin u < 1"
    then show "fst (authenticate opts env tcheck tset password u w)
                 = Rejected \<lparr>result = None, message = attemptTooSoonError opts\<rparr>" by (rule r)
  next
    assume "p_attempts p = None \<and> p_lastLogin p = None"
    then show "attempts (new_user i tnew p) = 0" using n by simp
  next
    assume "p_attempts p = None \<and> p_lastLogin p = None"
    then show "lastLogin (new_user i tnew p) = tnew" using n by simp
  next
    assume a: "p_attempts p = None \<and> p_lastLogin p = None" and b: "tcheck - tnew < 1"
    from n[OF a] b show "fst (authenticate opts env tcheck tset password (new_user i tnew p) w)
                 = Rejected \<lparr>result = None, message = attemptTooSoonError opts\<rparr>"
      by (intro r) simp_all
  qed
qed

theorem zero_failures_delay_witness:
  "limitAttempts limit_opts \<and> 1 \<le> maxInterval limit_opts \<and>
   attempts hugo = 0 \<and> calculatedInterval limit_opts hugo = 1 \<and>
   5000 - lastLogin hugo < 1 \<and>
   fst (authenticate limit_opts demo_env 5000 5000 (Some ''pw'') hugo hugo_world)
     = Rejected \<lparr>result = None,
                 message = ''Login attempted too soon after previous attempt''\<rparr> \<and>
   p_attempts hugo_plain = None \<and> p_lastLogin hugo_plain = None \<and>
   attempts (new_user 1 5000 hugo_plain) = 0 \<and> lastLogin (new_user 1 5000 hugo_plain) = 5000 \<and>
   fst (authenticate limit_opts demo_env 5000 5000 (Some ''pw'') (new_user 1 5000 hugo_plain)
          empty_world)
     = Rejected \<lparr>result = None,
                 message = ''Login attempted too soon after previous attempt''\<rparr>"
proof -
  have h1: "limitAttempts limit_opts" and h2: "1 \<le> maxInterval limit_opts"
    by (simp_all add: limit_opts_simps)
  have p: "p_attempts hugo_plain = None \<and> p_lastLogin hugo_plain = None"
    by (simp add: hugo_plain_def)
  from zero_failures_delay[OF h1 h2, where u = hugo and tcheck = 5000 and tset = 5000
         and env = demo_env and password = "Some ''pw''" and w = hugo_world
         and p = hugo_plain and i = 1 and tnew = 5000]
       zero_failures_delay[OF h1 h2, where u = hugo and tcheck = 5000 and tset = 5000
         and env = demo_env and password = "Some ''pw''" and w = empty_world
         and p = hugo_plain and i = 1 and tnew = 5000]
  show ?thesis using h1 h2 p by (simp add: hugo_simps limit_opts_simps)
qed

lemma save_unchecked_events:
  "save_unchecked opts env u w = (u', w') \<Longrightarrow>
     \<exists>evs. log w' = log w @ evs \<and> list_all (\<lambda>e. is_hash_event e \<or> is_save_event e) evs"
  by (drule save_unchecked_log) auto

lemma authenticate_events:
  assumes "authenticate opts env tcheck tset password u w = (r, u', w')"
  shows "\<exists>evs. log w' = log w @ evs \<and> list_all (\<lambda>e. is_hash_event e \<or> is_save_event e) evs"
proof (cases "throttled opts tcheck u")
  case True
  with assms have "save_unchecked opts env (u\<lparr>lastLogin := tset\<rparr>) w = (u', w')"
    by (simp add: authenticate_def split: prod.splits)
  then show ?thesis by (rule save_unchecked_events)
next
  case nt: False
  show ?thesis
  proof (cases "truthy (salt u)")
    case False
    with nt assms have "w' = w" by (simp add: authenticate_def)
    then show ?thesis by simp
  next
    case True
    let ?e = "Pbkdf2 password (the (salt u)) (iterations opts) (keylen opts)"
    let ?w1 = "w\<lparr>log := log w @ [?e]\<rparr>"
    have w1: "log ?w1 = log w @ [?e]" by simp
    have "w' = ?w1 \<or> (\<exists>d. save_unchecked opts env d ?w1 = (u', w'))"
      using assms nt True
      by (auto simp: authenticate_def Let_def split: sum.splits if_splits prod.splits)
    then show ?thesis
    proof
      assume "w' = ?w1"
      then have "log w' = log w @ [?e]" by simp
      then show ?thesis by (intro exI[of _ "[?e]"]) simp
    next
      assume "\<exists>d. save_unchecked opts env d ?w1 = (u', w')"
      then obtain d where "save_unchecked opts env d ?w1 = (u', w')" ..
      from save_unchecked_events[OF this] obtain evs where
        "log w' = log ?w1 @ evs" and "list_all (\<lambda>e. is_hash_event e \<or> is_save_event e) evs"
        by blast
      then show ?thesis by (intro exI[of _ "?e # evs"]) simp
    qed
  qed
qed

lemma findByUsername_eq:
  "findByUsername opts env name w =
     (findOne env (store w) UsernameField
        (if name \<noteq> None \<and> usernameLowerCase opts then map_option (toLowerCase env) name else name)
        (selectFields opts) (populateFields opts),
      w\<lparr>log := log w @ [FindOne UsernameField
        (if name \<noteq> None \<and> usernameLowerCase opts then map_option (toLowerCase env) name else name)]\<rparr>)"
  by (simp add: findByUsername_def Let_def)

lemma findByEmail_eq:
  "findByEmail opts env mail w =
     (findOne env (store w) EmailField (map_option (toLowerCase env) mail)
        (selectFields opts) (populateFields opts),
      w\<lparr>log := log w @ [FindOne EmailField (map_option (toLowerCase env) mail)]\<rparr>)"
  by (cases mail) (simp_all add: findByEmail_def Let_def)

lemma no_find_among:
  "list_all (\<lambda>e. is_hash_event e \<or> is_save_event e) evs \<Longrightarrow> FindOne f v \<notin> set evs"
  by (induction evs) auto

subsection \<open>Authentication by name\<close>

text \<open>
  Claim C5. Whatever the input, \<^verbatim>\<open>authenticate()(usernameOrEmail, password, cb)\<close> first
  looks the name up as a user name: the log grows by that lookup before anything else.
  A lookup by e-mail appears in the log only if the first lookup found no document.
  If neither finds one, the callback receives
  \<open>(false, {result: 'incorrectUsername', message: ...})\<close>, the store is as it was, and
  the log has grown by the two lookups only: no document is written and no key is
  derived.
\<close>

theorem authenticate_static_lookups:
  "let qu = (if name \<noteq> None \<and> usernameLowerCase opts
             then map_option (toLowerCase env) name else name);
       qe = map_option (toLowerCase env) name;
       primary = fst (findByUsername opts env name w);
       secondary = fst (findByEmail opts env name (snd (findByUsername opts env name w)))
   in case authenticate_static opts env tcheck tset name password w of (r, found, w') \<Rightarrow>
        (\<exists>rest. log w' = log w @ FindOne UsernameField qu # rest \<and>
           (FindOne EmailField qe \<in> set rest \<longrightarrow> primary = Inr None)) \<and>
        (primary = Inr None \<and> secondary = Inr None \<longrightarrow>
           r = Rejected \<lparr>result = Some ''incorrectUsername'',
                         message = format env (incorrectUsernameError opts)
                                     [usernameField opts]\<rparr> \<and>
           found = None \<and> store w' = store w \<and>
           log w' = log w @ [FindOne UsernameField qu, FindOne EmailField qe])"
proof -
  define qu where "qu = (if name \<noteq> None \<and> usernameLowerCase opts
             then map_option (toLowerCase env) name else name)"
  define qe where "qe = map_option (toLowerCase env) name"
  define w1 where "w1 = w\<lparr>log := log w @ [FindOne UsernameField qu]\<rparr>"
  define w2 where "w2 = w1\<lparr>log := log w1 @ [FindOne EmailField qe]\<rparr>"
  define primary where
    "primary = findOne env (store w) UsernameField qu (selectFields opts) (populateFields opts)"
  define secondary where
    "secondary = findOne env (store w) EmailField qe (selectFields opts) (populateFields opts)"
  have fu: "findByUsername opts env name w = (primary, w1)"
    by (simp add: findByUsername_eq primary_def w1_def qu_def)
  have fe: "findByEmail opts env name w1 = (secondary, w2)"
    by (simp add: findByEmail_eq secondary_def w2_def w1_def qe_def)
  obtain r found w' where a: "authenticate_static opts env tcheck tset name password w = (r, found, w')"
    by (cases "authenticate_static opts env tcheck tset name password w")
  have l1: "log w1 = log w @ [FindOne UsernameField qu]" by (simp add: w1_def)
  have l2: "log w2 = log w @ [FindOne UsernameField qu, FindOne EmailField qe]"
    by (simp add: w2_def w1_def)
  have first: "\<exists>rest. log w' = log w @ FindOne UsernameField qu # rest \<and>
           (FindOne EmailField qe \<in> set rest \<longrightarrow> primary = Inr None)"
  proof (cases primary)
    case (Inl err)
    with a fu have "w' = w1" by (simp add: authenticate_static_def)
    with l1 Inl show ?thesis by simp
  next
    case (Inr x)
    show ?thesis
    proof (cases x)
      case (Some u)
      with Inr a fu obtain u' where "authenticate opts env tcheck tset password u w1 = (r, u', w')"
        by (auto simp: authenticate_static_def split: prod.splits)
      from authenticate_events[OF this] obtain evs where
        e: "log w' = log w1 @ evs" "list_all (\<lambda>e. is_hash_event e \<or> is_save_event e) evs"
        by blast
      from e(2) have "FindOne EmailField qe \<notin> set evs" by (rule no_find_among)
      with e(1) l1 show ?thesis by simp
    next
      case None
      with Inr have p: "primary = Inr None" by simp
      have "\<exists>rest. log w' = log w2 @ rest"
      proof (cases secondary)
        case (Inl err)
        with a fu fe p have "w' = w2" by (simp add: authenticate_static_def)
        then show ?thesis by simp
      next
        case (Inr y)
        show ?thesis
        proof (cases y)
          case None
          with Inr a fu fe p have "w' = w2" by (simp add: authenticate_static_def)
          then show ?thesis by simp
        next
          case (Some u)
          with Inr a fu fe p obtain u' where
            "authenticate opts env tcheck tset password u w2 = (r, u', w')"
            by (auto simp: authenticate_static_def split: prod.splits)
          from authenticate_events[OF this] show ?thesis by blast
        qed
      qed
      then obtain rest where "log w' = log w2 @ rest" ..
      with l2 have "log w' = log w @ FindOne UsernameField qu # (FindOne EmailField qe # rest)"
        by simp
      with p show ?thesis by blast
    qed
  qed
  have second: "r = Rejected \<lparr>result = Some ''incorrectUsername'',
                         message = format env (incorrectUsernameError opts)
                                     [usernameField opts]\<rparr> \<and>
           found = None \<and> store w' = store w \<and>
           log w' = log w @ [FindOne UsernameField qu, FindOne EmailField qe]"
    if "primary = Inr None \<and> secondary = Inr None"
  proof -
    from that a fu fe have "r = Rejected \<lparr>result = Some ''incorrectUsername'',
                         message = format env (incorrectUsernameError opts)
                                     [usernameField opts]\<rparr> \<and> found = None \<and> w' = w2"
      by (simp add: authenticate_static_def)
    moreover have "store w2 = store w" by (simp add: w2_def w1_def)
    ultimately show ?thesis using l2 by simp
  qed
  have p_eq: "fst (findByUsername opts env name w) = primary" by (simp add: fu)
  have s_eq: "fst (findByEmail opts env name (snd (findByUsername opts env name w))) = secondary"
    by (simp add: fu fe)
  have both: "(\<exists>rest. log w' = log w @ FindOne UsernameField qu # rest \<and>
           (FindOne EmailField qe \<in> set rest \<longrightarrow> primary = Inr None)) \<and>
        (primary = Inr None \<and> secondary = Inr None \<longrightarrow>
           r = Rejected \<lparr>result = Some ''incorrectUsername'',
                         message = format env (incorrectUsernameError opts)
                                     [usernameField opts]\<rparr> \<and>
           found = None \<and> store w' = store w \<and>
           log w' = log w @ [FindOne UsernameField qu, FindOne EmailField qe])"
  proof (rule conjI)
    show "\<exists>rest. log w' = log w @ FindOne UsernameField qu # rest \<and>
           (FindOne EmailField qe \<in> set rest \<longrightarrow> primary = Inr None)" by (rule first)
  next
    show "primary = Inr None \<and> secondary = Inr None \<longrightarrow>
           r = Rejected \<lparr>result = Some ''incorrectUsername'',
                         message = format env (incorrectUsernameError opts)
                                     [usernameField opts]\<rparr> \<and>
           found = None \<and> store w' = store w \<and>
           log w' = log w @ [FindOne UsernameField qu, FindOne EmailField qe]"
      by (rule impI) (rule second)
  qed
  show ?thesis
    using both unfolding Let_def p_eq s_eq a prod.case qu_def qe_def by assumption
qed

lemma demo_lower_email: "toLowerCase demo_env ''E@X.com'' = ''e@x.com''"
  by code_simp

lemma demo_lower_nobody: "toLowerCase demo_env ''nobody'' = ''nobody''"
  by (simp add: demo_env_def demo_toLowerCase_def lower_char_def)

lemma demo_format_incorrect:
  "format demo_env (incorrectUsernameError plain_opts) [usernameField plain_opts]
     = ''Incorrect username''"
  by (simp add: demo_env_def plain_opts_def defaults_def small_options_def no_options_def
      or_str_def)

lemma demo_find_hugo:
  "findOne demo_env [hugo] f v sel pop = Inr (if field_of f hugo = v then Some hugo else None)"
  by (simp add: demo_env_def demo_findOne_def)

lemma authenticate_plain_hugo:
  "authenticate plain_opts demo_env 5000 5000 (Some ''pw'') hugo w
     = (Authenticated hugo, hugo, w\<lparr>log := log w @ [Pbkdf2 (Some ''pw'') ''2a2a'' 1 4]\<rparr>)"
  by (simp add: authenticate_def throttled_def plain_opts_simps truthy_def hugo_simps
      demo_kdf_pw demo_hex_pw)

theorem authenticate_static_lookups_witness:
  "fst (findByUsername plain_opts demo_env (Some ''nobody'') hugo_world) = Inr None \<and>
   fst (findByEmail plain_opts demo_env (Some ''nobody'')
          (snd (findByUsername plain_opts demo_env (Some ''nobody'') hugo_world))) = Inr None \<and>
   authenticate_static plain_opts demo_env 5000 5000 (Some ''nobody'') (Some ''pw'') hugo_world
     = (Rejected \<lparr>result = Some ''incorrectUsername'', message = ''Incorrect username''\<rparr>,
        None,
        \<lparr>store = [hugo],
         log = [FindOne UsernameField (Some ''nobody''), FindOne EmailField (Some ''nobody'')]\<rparr>) \<and>
   fst (findByUsername plain_opts demo_env (Some ''E@X.com'') hugo_world) = Inr None \<and>
   authenticate_static plain_opts demo_env 5000 5000 (Some ''E@X.com'') (Some ''pw'') hugo_world
     = (Authenticated hugo, Some hugo,
        \<lparr>store = [hugo],
         log = [FindOne UsernameField (Some ''E@X.com''), FindOne EmailField (Some ''e@x.com''),
                Pbkdf2 (Some ''pw'') ''2a2a'' 1 4]\<rparr>)"
proof -
  have p1: "fst (findByUsername plain_opts demo_env (Some ''nobody'') hugo_world) = Inr None"
    by (simp add: findByUsername_eq plain_opts_simps hugo_world_def demo_find_hugo field_of_def
        hugo_simps)
  have s1: "fst (findByEmail plain_opts demo_env (Some ''nobody'')
          (snd (findByUsername plain_opts demo_env (Some ''nobody'') hugo_world))) = Inr None"
    by (simp add: findByUsername_eq findByEmail_eq plain_opts_simps hugo_world_def
        demo_find_hugo field_of_def hugo_simps demo_lower_nobody)
  have p2: "fst (findByUsername plain_opts demo_env (Some ''E@X.com'') hugo_world) = Inr None"
    by (simp add: findByUsername_eq plain_opts_simps hugo_world_def demo_find_hugo field_of_def
        hugo_simps)
  have a2: "authenticate_static plain_opts demo_env 5000 5000 (Some ''E@X.com'') (Some ''pw'')
        hugo_world
     = (Authenticated hugo, Some hugo,
        \<lparr>store = [hugo],
         log = [FindOne UsernameField (Some ''E@X.com''), FindOne EmailField (Some ''e@x.com''),
                Pbkdf2 (Some ''pw'') ''2a2a'' 1 4]\<rparr>)"
    by (simp add: authenticate_static_def findByUsername_eq findByEmail_eq plain_opts_simps
        hugo_world_def demo_find_hugo field_of_def hugo_simps demo_lower_email
        authenticate_plain_hugo)
  from authenticate_static_lookups[where opts = plain_opts and env = demo_env and tcheck = 5000
         and tset = 5000 and name = "Some ''nobody''" and password = "Some ''pw''"
         and w = hugo_world]
  have a1: "authenticate_static plain_opts demo_env 5000 5000 (Some ''nobody'') (Some ''pw'')
        hugo_world
     = (Rejected \<lparr>result = Some ''incorrectUsername'', message = ''Incorrect username''\<rparr>,
        None,
        \<lparr>store = [hugo],
         log = [FindOne UsernameField (Some ''nobody''), FindOne EmailField (Some ''nobody'')]\<rparr>)"
    using p1 s1
    by (auto simp: Let_def plain_opts_simps demo_format_incorrect demo_lower_nobody
        hugo_world_def split: prod.splits)
  from p1 s1 a1 p2 a2 show ?thesis by simp
qed

subsection \<open>Registration\<close>

text \<open>
  Claim C6. \<^verbatim>\<open>register\<close> checks, in this order: the user name is there, the e-mail is
  there, no document has the user name, no document has the e-mail. The first check that
  fails decides the error. The two \<^verbatim>\<open>BadRequestError\<close>s for a missing field leave the
  world as it was (no lookup has been made); the two for an existing document leave the
  store as it was, with only the lookups in the log. Unless all four checks pass the
  result is an error, the store is as it was and the log has grown by lookups only (no
  random bytes, no key derivation, no save). When all four pass, the password is set and
  the document saved, and if both succeed the saved document is the result.
\<close>

theorem register_validation_order:
  "let u = to_document i tnew cand;
       qu = (if username u \<noteq> None \<and> usernameLowerCase opts
             then map_option (toLowerCase env) (username u) else username u);
       qe = map_option (toLowerCase env) (email u);
       primary = fst (findByUsername opts env (username u) w);
       w1 = snd (findByUsername opts env (username u) w);
       secondary = fst (findByEmail opts env (email u) w1);
       w2 = snd (findByEmail opts env (email u) w1);
       passed = (truthy (username u) \<and> truthy (email u) \<and>
                 primary = Inr None \<and> secondary = Inr None)
   in case register opts env i tnew cand password w of (r, w') \<Rightarrow>
        (\<not> truthy (username u) \<longrightarrow>
           r = Inl (BadRequestError ''missingUsername''
                      (format env (missingUsernameError opts) [usernameField opts])) \<and>
           w' = w) \<and>
        (truthy (username u) \<and> \<not> truthy (email u) \<longrightarrow>
           r = Inl (BadRequestError ''missingEmail'' (missingEmailError opts)) \<and> w' = w) \<and>
        (truthy (username u) \<and> truthy (email u) \<and> (\<exists>d. primary = Inr (Some d)) \<longrightarrow>
           r = Inl (BadRequestError ''usernameExists''
                      (format env (userExistsError opts)
                         [usernameField opts, the (username u)])) \<and>
           store w' = store w \<and> log w' = log w @ [FindOne UsernameField qu]) \<and>
        (truthy (username u) \<and> truthy (email u) \<and> primary = Inr None \<and>
         (\<exists>d. secondary = Inr (Some d)) \<longrightarrow>
           r = Inl (BadRequestError ''emailExists''
                      (format env (userExistsError opts) [emailField opts, the (email u)])) \<and>
           store w' = store w \<and>
           log w' = log w @ [FindOne UsernameField qu, FindOne EmailField qe]) \<and>
        (\<not> passed \<longrightarrow>
           isl r \<and> store w' = store w \<and>
           (\<exists>evs. log w' = log w @ evs \<and> list_all is_find_event evs)) \<and>
        (passed \<and> setPassword opts env password u w2 = (Inr u1, w3) \<and>
         doc_save opts env u1 w3 = (None, u2, w4) \<longrightarrow>
           r = Inr u2 \<and> w' = w4 \<and> hash u2 = hash u1 \<and> salt u2 = salt u1)"
proof -
  define u where "u = to_document i tnew cand"
  define qu where "qu = (if username u \<noteq> None \<and> usernameLowerCase opts
             then map_option (toLowerCase env) (username u) else username u)"
  define qe where "qe = map_option (toLowerCase env) (email u)"
  define w1 where "w1 = w\<lparr>log := log w @ [FindOne UsernameField qu]\<rparr>"
  define w2 where "w2 = w1\<lparr>log := log w1 @ [FindOne EmailField qe]\<rparr>"
  define primary where
    "primary = findOne env (store w) UsernameField qu (selectFields opts) (populateFields opts)"
  define secondary where
    "secondary = findOne env (store w) EmailField qe (selectFields opts) (populateFields opts)"
  define passed where "passed = (truthy (username u) \<and> truthy (email u) \<and>
                 primary = Inr None \<and> secondary = Inr None)"
  have fu: "findByUsername opts env (username u) w = (primary, w1)"
    by (simp add: findByUsername_eq primary_def w1_def qu_def)
  have fe: "findByEmail opts env (email u) w1 = (secondary, w2)"
    by (simp add: findByEmail_eq secondary_def w2_def w1_def qe_def)
  have s1: "store w1 = store w" and l1: "log w1 = log w @ [FindOne UsernameField qu]"
    by (simp_all add: w1_def)
  have s2: "store w2 = store w"
    and l2: "log w2 = log w @ [FindOne UsernameField qu, FindOne EmailField qe]"
    by (simp_all add: w2_def w1_def)
  obtain r w' where a: "register opts env i tnew cand password w = (r, w')"
    by (cases "register opts env i tnew cand password w")
  have reg: "register opts env i tnew cand password w =
     (if \<not> truthy (username u)
      then (Inl (BadRequestError ''missingUsername''
                   (format env (missingUsernameError opts) [usernameField opts])), w)
      else if \<not> truthy (email u)
      then (Inl (BadRequestError ''missingEmail'' (missingEmailError opts)), w)
      else
        (case primary of
           Inl err \<Rightarrow> (Inl err, w1)
         | Inr (Some existingUser) \<Rightarrow>
             (Inl (BadRequestError ''usernameExists''
                     (format env (userExistsError opts)
                        [usernameField opts, the (username u)])), w1)
         | Inr None \<Rightarrow>
             (case secondary of
                Inl err \<Rightarrow> (Inl err, w2)
              | Inr (Some existingUser) \<Rightarrow>
                  (Inl (BadRequestError ''emailExists''
                          (format env (userExistsError opts)
                             [emailField opts, the (email u)])), w2)
              | Inr None \<Rightarrow>
                  (case setPassword opts env password u w2 of
                     (Inl err, w3) \<Rightarrow> (Inl err, w3)
                   | (Inr u1, w3) \<Rightarrow>
                       (case doc_save opts env u1 w3 of
                          (Some err, u2, w4) \<Rightarrow> (Inl err, w4)
                        | (None, u2, w4) \<Rightarrow> (Inr u2, w4))))))"
    unfolding register_def Let_def u_def[symmetric] fu
    by (simp add: fe split: sum.splits option.splits)
  have c1: "r = Inl (BadRequestError ''missingUsername''
                      (format env (missingUsernameError opts) [usernameField opts])) \<and> w' = w"
    if "\<not> truthy (username u)"
    using that a by (simp add: reg)
  have c2: "r = Inl (BadRequestError ''missingEmail'' (missingEmailError opts)) \<and> w' = w"
    if "truthy (username u) \<and> \<not> truthy (email u)"
    using that a by (simp add: reg)
  have c3: "r = Inl (BadRequestError ''usernameExists''
                      (format env (userExistsError opts)
                         [usernameField opts, the (username u)])) \<and>
           store w' = store w \<and> log w' = log w @ [FindOne UsernameField qu]"
    if "truthy (username u) \<and> truthy (email u) \<and> (\<exists>d. primary = Inr (Some d))"
    using that a s1 l1 by (auto simp: reg)
  have c4: "r = Inl (BadRequestError ''emailExists''
                      (format env (userExistsError opts) [emailField opts, the (email u)])) \<and>
           store w' = store w \<and>
           log w' = log w @ [FindOne UsernameField qu, FindOne EmailField qe]"
    if "truthy (username u) \<and> truthy (email u) \<and> primary = Inr None \<and>
         (\<exists>d. secondary = Inr (Some d))"
    using that a s2 l2 by (auto simp: reg)
  have c5: "isl r \<and> store w' = store w \<and>
           (\<exists>evs. log w' = log w @ evs \<and> list_all is_find_event evs)"
    if np: "\<not> passed"
  proof -
    have "(isl r \<and> w' = w) \<or> (isl r \<and> w' = w1) \<or> (isl r \<and> w' = w2)"
      using np a unfolding passed_def reg
      by (auto split: if_splits sum.splits option.splits)
    then show ?thesis
    proof (elim disjE conjE)
      assume "isl r" "w' = w"
      then show ?thesis by (simp add: exI[of _ "[]"])
    next
      assume "isl r" "w' = w1"
      then show ?thesis using s1 l1 by (simp add: exI[of _ "[FindOne UsernameField qu]"])
    next
      assume "isl r" "w' = w2"
      then show ?thesis using s2 l2
        by (simp add: exI[of _ "[FindOne UsernameField qu, FindOne EmailField qe]"])
    qed
  qed
  have c6: "r = Inr u2 \<and> w' = w4 \<and> hash u2 = hash u1 \<and> salt u2 = salt u1"
    if "passed \<and> setPassword opts env password u w2 = (Inr u1, w3) \<and>
         doc_save opts env u1 w3 = (None, u2, w4)"
  proof -
    from that a have "r = Inr u2 \<and> w' = w4"
      unfolding passed_def reg by simp
    moreover from that doc_save_fields[of opts env u1 w3 None u2 w4]
    have "hash u2 = hash u1 \<and> salt u2 = salt u1" by simp
    ultimately show ?thesis by simp
  qed
  have p_eq: "fst (findByUsername opts env (username u) w) = primary"
    and w1_eq: "snd (findByUsername opts env (username u) w) = w1"
    by (simp_all add: fu)
  have s_eq: "fst (findByEmail opts env (email u) w1) = secondary"
    and w2_eq: "snd (findByEmail opts env (email u) w1) = w2"
    by (simp_all add: fe)
  have all: "(\<not> truthy (username u) \<longrightarrow>
           r = Inl (BadRequestError ''missingUsername''
                      (format env (missingUsernameError opts) [usernameField opts])) \<and>
           w' = w) \<and>
        (truthy (username u) \<and> \<not> truthy (email u) \<longrightarrow>
           r = Inl (BadRequestError ''missingEmail'' (missingEmailError opts)) \<and> w' = w) \<and>
        (truthy (username u) \<and> truthy (email u) \<and> (\<exists>d. primary = Inr (Some d)) \<longrightarrow>
           r = Inl (BadRequestError ''usernameExists''
                      (format env (userExistsError opts)
                         [usernameField opts, the (username u)])) \<and>
           store w' = store w \<and> log w' = log w @ [FindOne UsernameField qu]) \<and>
        (truthy (username u) \<and> truthy (email u) \<and> primary = Inr None \<and>
         (\<exists>d. secondary = Inr (Some d)) \<longrightarrow>
           r = Inl (BadRequestError ''emailExists''
                      (format env (userExistsError opts) [emailField opts, the (email u)])) \<and>
           store w' = store w \<and>
           log w' = log w @ [FindOne UsernameField qu, FindOne EmailField qe]) \<and>
        (\<not> passed \<longrightarrow>
           isl r \<and> store w' = store w \<and>
           (\<exists>evs. log w' = log w @ evs \<and> list_all is_find_event evs)) \<and>
        (passed \<and> setPassword opts env password u w2 = (Inr u1, w3) \<and>
         doc_save opts env u1 w3 = (None, u2, w4) \<longrightarrow>
           r = Inr u2 \<and> w' = w4 \<and> hash u2 = hash u1 \<and> salt u2 = salt u1)"
  proof (intro conjI)
    show "\<not> truthy (username u) \<longrightarrow>
           r = Inl (BadRequestError ''missingUsername''
                      (format env (missingUsernameError opts) [usernameField opts])) \<and>
           w' = w"
      by (rule impI) (rule c1)
    show "truthy (username u) \<and> \<not> truthy (email u) \<longrightarrow>
           r = Inl (BadRequestError ''missingEmail'' (missingEmailError opts)) \<and> w' = w"
      by (rule impI) (rule c2)
    show "truthy (username u) \<and> truthy (email u) \<and> (\<exists>d. primary = Inr (Some d)) \<longrightarrow>
           r = Inl (BadRequestError ''usernameExists''
                      (format env (userExistsError opts)
                         [usernameField opts, the (username u)])) \<and>
           store w' = store w \<and> log w' = log w @ [FindOne UsernameField qu]"
      by (rule impI) (rule c3)
    show "truthy (username u) \<and> truthy (email u) \<and> primary = Inr None \<and>
         (\<exists>d. secondary = Inr (Some d)) \<longrightarrow>
           r = Inl (BadRequestError ''emailExists''
                      (format env (userExistsError opts) [emailField opts, the (email u)])) \<and>
           store w' = store w \<and>
           log w' = log w @ [FindOne UsernameField qu, FindOne EmailField qe]"
      by (rule impI) (rule c4)
    show "\<not> passed \<longrightarrow>
           isl r \<and> store w' = store w \<and>
           (\<exists>evs. log w' = log w @ evs \<and> list_all is_find_event evs)"
      by (rule impI) (rule c5)
    show "passed \<and> setPassword opts env password u w2 = (Inr u1, w3) \<and>
         doc_save opts env u1 w3 = (None, u2, w4) \<longrightarrow>
           r = Inr u2 \<and> w' = w4 \<and> hash u2 = hash u1 \<and> salt u2 = salt u1"
      by (rule impI) (rule c6)
  qed
  show ?thesis
    using all
    unfolding Let_def u_def[symmetric] p_eq w1_eq s_eq w2_eq a prod.case passed_def qu_def qe_def
    by assumption
qed

lemma demo_messages:
  "format demo_env (missingUsernameError plain_opts) [usernameField plain_opts]
     = ''Field username is not set''"
  "missingEmailError plain_opts = ''Email is missing''"
  "format demo_env (userExistsError plain_opts) [usernameField plain_opts, ''hugo'']
     = ''User already exists with username hugo''"
  "format demo_env (userExistsError plain_opts) [emailField plain_opts, ''E@x.com'']
     = ''User already exists with email E@x.com''"
  by (simp_all add: demo_env_def plain_opts_def defaults_def small_options_def no_options_def
      or_str_def)

lemma to_document_simps:
  "username (to_document 2 6000 no_name) = None"
  "username (to_document 2 6000 no_mail) = Some ''hugo''"
  "email (to_document 2 6000 no_mail) = None"
  "username (to_document 2 6000 (Plain hugo_plain)) = Some ''hugo''"
  "email (to_document 2 6000 (Plain hugo_plain)) = Some ''E@x.com''"
  "username (to_document 2 6000 anna) = Some ''anna''"
  "email (to_document 2 6000 anna) = Some ''E@x.com''"
  by (simp_all add: to_document_def new_user_def no_name_def no_mail_def anna_def hugo_plain_def)

lemma demo_lower_mail: "toLowerCase demo_env ''E@x.com'' = ''e@x.com''"
  by code_simp

lemma setPassword_plain_hugo:
  "setPassword plain_opts demo_env (Some ''pw'') (to_document 1 5000 (Plain hugo_plain)) w
     = (Inr (hugo\<lparr>email := Some ''E@x.com''\<rparr>),
        w\<lparr>log := log w @ [RandomBytes 2, Pbkdf2 (Some ''pw'') ''2a2a'' 1 4]\<rparr>)"
  by (simp add: setPassword_def Let_def truthy_def plain_opts_simps demo_salt demo_hex_salt
      demo_kdf_pw demo_hex_pw to_document_def new_user_def hugo_plain_def hugo_def)

lemma doc_save_plain_hugo:
  "doc_save plain_opts demo_env (hugo\<lparr>email := Some ''E@x.com''\<rparr>) \<lparr>store = [], log = l\<rparr>
     = (None, hugo, \<lparr>store = [hugo], log = l @ [Save hugo]\<rparr>)"
  by (simp add: doc_save_def preSave_def truthy_def plain_opts_simps demo_lower_mail hugo_def)
     (simp add: demo_env_def demo_save_def)

lemma demo_find_none: "findOne demo_env [] f v sel pop = Inr None"
  by (simp add: demo_env_def demo_findOne_def)

lemma finds_hugo_world:
  "findByUsername plain_opts demo_env (Some ''hugo'') hugo_world
     = (Inr (Some hugo), \<lparr>store = [hugo], log = [FindOne UsernameField (Some ''hugo'')]\<rparr>)"
  "findByUsername plain_opts demo_env (Some ''anna'') hugo_world
     = (Inr None, \<lparr>store = [hugo], log = [FindOne UsernameField (Some ''anna'')]\<rparr>)"
  "findByEmail plain_opts demo_env (Some ''E@x.com'')
       \<lparr>store = [hugo], log = [FindOne UsernameField (Some ''anna'')]\<rparr>
     = (Inr (Some hugo),
        \<lparr>store = [hugo], log = [FindOne UsernameField (Some ''anna''),
                                FindOne EmailField (Some ''e@x.com'')]\<rparr>)"
  by (simp_all add: findByUsername_eq findByEmail_eq plain_opts_simps hugo_world_def
      demo_find_hugo field_of_def hugo_simps demo_lower_mail)

lemma finds_empty_world:
  "findByUsername plain_opts demo_env (Some ''hugo'') empty_world
     = (Inr None, \<lparr>store = [], log = [FindOne UsernameField (Some ''hugo'')]\<rparr>)"
  "findByEmail plain_opts demo_env (Some ''E@x.com'')
       \<lparr>store = [], log = [FindOne UsernameField (Some ''hugo'')]\<rparr>
     = (Inr None,
        \<lparr>store = [], log = [FindOne UsernameField (Some ''hugo''),
                            FindOne EmailField (Some ''e@x.com'')]\<rparr>)"
  by (simp_all add: findByUsername_eq findByEmail_eq plain_opts_simps empty_world_def
      demo_find_none demo_lower_mail)

theorem register_validation_order_witness:
  "\<not> truthy (username (to_document 2 6000 no_name)) \<and>
   register plain_opts demo_env 2 6000 no_name (Some ''pw'') hugo_world
     = (Inl (BadRequestError ''missingUsername'' ''Field username is not set''), hugo_world) \<and>
   truthy (username (to_document 2 6000 no_mail)) \<and>
   \<not> truthy (email (to_document 2 6000 no_mail)) \<and>
   register plain_opts demo_env 2 6000 no_mail (Some ''pw'') hugo_world
     = (Inl (BadRequestError ''missingEmail'' ''Email is missing''), hugo_world) \<and>
   fst (findByUsername plain_opts demo_env (Some ''hugo'') hugo_world) = Inr (Some hugo) \<and>
   register plain_opts demo_env 2 6000 (Plain hugo_plain) (Some ''pw'') hugo_world
     = (Inl (BadRequestError ''usernameExists'' ''User already exists with username hugo''),
        \<lparr>store = [hugo], log = [FindOne UsernameField (Some ''hugo'')]\<rparr>) \<and>
   fst (findByUsername plain_opts demo_env (Some ''anna'') hugo_world) = Inr None \<and>
   fst (findByEmail plain_opts demo_env (Some ''E@x.com'')
          (snd (findByUsername plain_opts demo_env (Some ''anna'') hugo_world)))
     = Inr (Some hugo) \<and>
   register plain_opts demo_env 2 6000 anna (Some ''pw'') hugo_world
     = (Inl (BadRequestError ''emailExists'' ''User already exists with email E@x.com''),
        \<lparr>store = [hugo], log = [FindOne UsernameField (Some ''anna''),
                                FindOne EmailField (Some ''e@x.com'')]\<rparr>) \<and>
   fst (findByUsername plain_opts demo_env (Some ''hugo'') empty_world) = Inr None \<and>
   fst (findByEmail plain_opts demo_env (Some ''E@x.com'')
          (snd (findByUsername plain_opts demo_env (Some ''hugo'') empty_world))) = Inr None \<and>
   register plain_opts demo_env 1 5000 (Plain hugo_plain) (Some ''pw'') empty_world
     = (Inr hugo,
        \<lparr>store = [hugo], log = [FindOne UsernameField (Some ''hugo''),
                                FindOne EmailField (Some ''e@x.com''),
                                RandomBytes 2, Pbkdf2 (Some ''pw'') ''2a2a'' 1 4, Save hugo]\<rparr>)"
proof -
  have h1: "\<not> truthy (username (to_document 2 6000 no_name))"
    by (simp add: truthy_def to_document_simps)
  have h2: "truthy (username (to_document 2 6000 no_mail))"
    "\<not> truthy (email (to_document 2 6000 no_mail))"
    by (simp_all add: truthy_def to_document_simps)
  have t3: "truthy (username (to_document 2 6000 (Plain hugo_plain)))"
    "truthy (email (to_document 2 6000 (Plain hugo_plain)))"
    "truthy (username (to_document 2 6000 anna))"
    "truthy (email (to_document 2 6000 anna))"
    "truthy (username (to_document 1 5000 (Plain hugo_plain)))"
    "truthy (email (to_document 1 5000 (Plain hugo_plain)))"
    by (simp_all add: truthy_def to_document_def new_user_def anna_def hugo_plain_def)
  have r1: "register plain_opts demo_env 2 6000 no_name (Some ''pw'') hugo_world
     = (Inl (BadRequestError ''missingUsername'' ''Field username is not set''), hugo_world)"
    using register_validation_order[where opts = plain_opts and env = demo_env and i = 2
        and tnew = 6000 and cand = no_name and password = "Some ''pw''" and w = hugo_world
        and ?u1.0 = hugo and ?w3.0 = hugo_world and ?u2.0 = hugo and ?w4.0 = hugo_world] h1
    by (simp add: Let_def demo_messages split: prod.splits)
  have r2: "register plain_opts demo_env 2 6000 no_mail (Some ''pw'') hugo_world
     = (Inl (BadRequestError ''missingEmail'' ''Email is missing''), hugo_world)"
    using register_validation_order[where opts = plain_opts and env = demo_env and i = 2
        and tnew = 6000 and cand = no_mail and password = "Some ''pw''" and w = hugo_world
        and ?u1.0 = hugo and ?w3.0 = hugo_world and ?u2.0 = hugo and ?w4.0 = hugo_world] h2
    by (simp add: Let_def demo_messages split: prod.splits)
  have r3: "register plain_opts demo_env 2 6000 (Plain hugo_plain) (Some ''pw'') hugo_world
     = (Inl (BadRequestError ''usernameExists'' ''User already exists with username hugo''),
        \<lparr>store = [hugo], log = [FindOne UsernameField (Some ''hugo'')]\<rparr>)"
    using register_validation_order[where opts = plain_opts and env = demo_env and i = 2
        and tnew = 6000 and cand = "Plain hugo_plain" and password = "Some ''pw''"
        and w = hugo_world
        and ?u1.0 = hugo and ?w3.0 = hugo_world and ?u2.0 = hugo and ?w4.0 = hugo_world] t3
    by (simp add: Let_def demo_messages to_document_simps finds_hugo_world plain_opts_simps
        split: prod.splits) (simp add: hugo_world_def)
  have r4: "register plain_opts demo_env 2 6000 anna (Some ''pw'') hugo_world
     = (Inl (BadRequestError ''emailExists'' ''User already exists with email E@x.com''),
        \<lparr>store = [hugo], log = [FindOne UsernameField (Some ''anna''),
                                FindOne EmailField (Some ''e@x.com'')]\<rparr>)"
    using register_validation_order[where opts = plain_opts and env = demo_env and i = 2
        and tnew = 6000 and cand = anna and password = "Some ''pw''" and w = hugo_world
        and ?u1.0 = hugo and ?w3.0 = hugo_world and ?u2.0 = hugo and ?w4.0 = hugo_world] t3
    by (simp add: Let_def demo_messages to_document_simps finds_hugo_world plain_opts_simps
        demo_lower_mail split: prod.splits) (simp add: hugo_world_def)
  have d5: "username (to_document 1 5000 (Plain hugo_plain)) = Some ''hugo''"
    "email (to_document 1 5000 (Plain hugo_plain)) = Some ''E@x.com''"
    by (simp_all add: to_document_def new_user_def hugo_plain_def)
  have r5: "register plain_opts demo_env 1 5000 (Plain hugo_plain) (Some ''pw'') empty_world
     = (Inr hugo,
        \<lparr>store = [hugo], log = [FindOne UsernameField (Some ''hugo''),
                                FindOne EmailField (Some ''e@x.com''),
                                RandomBytes 2, Pbkdf2 (Some ''pw'') ''2a2a'' 1 4, Save hugo]\<rparr>)"
    using register_validation_order[where opts = plain_opts and env = demo_env and i = 1
        and tnew = 5000 and cand = "Plain hugo_plain" and password = "Some ''pw''"
        and w = empty_world
        and ?u1.0 = "hugo\<lparr>email := Some ''E@x.com''\<rparr>"
        and ?w3.0 = "\<lparr>store = [], log = [FindOne UsernameField (Some ''hugo''),
                            FindOne EmailField (Some ''e@x.com''),
                            RandomBytes 2, Pbkdf2 (Some ''pw'') ''2a2a'' 1 4]\<rparr>"
        and ?u2.0 = hugo
        and ?w4.0 = "\<lparr>store = [hugo], log = [FindOne UsernameField (Some ''hugo''),
                                FindOne EmailField (Some ''e@x.com''),
                                RandomBytes 2, Pbkdf2 (Some ''pw'') ''2a2a'' 1 4, Save hugo]\<rparr>"]
      t3
    by (simp add: Let_def d5 finds_empty_world setPassword_plain_hugo doc_save_plain_hugo
        del: One_nat_def split: prod.splits)
  show ?thesis
    using h1 h2 r1 r2 r3 r4 r5 by (simp add: finds_hugo_world finds_empty_world)
qed

lemma generic_opts_simps:
  "limitAttempts generic_opts" "interval generic_opts = 100" "maxInterval generic_opts = 300000"
  "attemptTooSoonError generic_opts = ''Login failed''"
  "noSaltValueStoredError generic_opts = ''Login failed''"
  by (simp_all add: generic_opts_def defaults_def small_options_def no_options_def
      or_real_def or_str_def or_nat_def)

lemma authenticate_throttled:
  "throttled opts tcheck u \<Longrightarrow>
     fst (authenticate opts env tcheck tset password u w)
       = Rejected \<lparr>result = None, message = attemptTooSoonError opts\<rparr>"
  by (simp add: authenticate_def split: prod.splits)

lemma authenticate_no_salt:
  "\<not> throttled opts tcheck u \<Longrightarrow> \<not> truthy (salt u) \<Longrightarrow>
     authenticate opts env tcheck tset password u w
       = (Rejected \<lparr>result = None, message = noSaltValueStoredError opts\<rparr>, u, w)"
  by (simp add: authenticate_def)

subsection \<open>What the callback can tell apart\<close>

text \<open>
  Claim C7 asks that the failure for a document without salt can be told apart from the
  failure for an attempt made too soon. Both hand \<open>(false, {message: ...})\<close> to the
  callback, with no \<^verbatim>\<open>result\<close> code, so they differ in the configured message only. With
  one message for every failure, a document without salt whose delay has elapsed and a
  document inside its delay produce the same callback arguments.
\<close>

theorem no_salt_same_as_too_soon:
  "\<not> throttled generic_opts 405000 (hugo_failed\<lparr>salt := None\<rparr>) \<and>
   authenticate generic_opts demo_env 405000 405000 (Some ''pw'') (hugo_failed\<lparr>salt := None\<rparr>)
       \<lparr>store = [hugo_failed\<lparr>salt := None\<rparr>], log = []\<rparr>
     = (Rejected \<lparr>result = None, message = ''Login failed''\<rparr>,
        hugo_failed\<lparr>salt := None\<rparr>, \<lparr>store = [hugo_failed\<lparr>salt := None\<rparr>], log = []\<rparr>) \<and>
   throttled generic_opts 5050 hugo_failed \<and>
   fst (authenticate generic_opts demo_env 5050 5050 (Some ''pw'') hugo_failed
       \<lparr>store = [hugo_failed], log = []\<rparr>)
     = Rejected \<lparr>result = None, message = ''Login failed''\<rparr>"
proof -
  have o: "\<not> throttled generic_opts 405000 (hugo_failed\<lparr>salt := None\<rparr>)"
    by (rule hugo_failed_open) (simp add: generic_opts_simps)
  have t: "throttled generic_opts 5050 hugo_failed"
    by (rule hugo_failed_throttled) (simp_all add: generic_opts_simps)
  have n: "\<not> truthy (salt (hugo_failed\<lparr>salt := None\<rparr>))" by (simp add: truthy_def)
  show ?thesis
    using o t
    by (simp add: authenticate_no_salt[OF o n] authenticate_throttled[OF t] generic_opts_simps)
qed

text \<open>
  Claim C8 asks for a reason code on each of the four failures. With the default
  messages, the failures for an attempt made too soon and for a missing salt carry no
  \<^verbatim>\<open>result\<close>; those for a wrong password and for an unknown name carry
  \<^verbatim>\<open>'incorrectPassword'\<close> and \<^verbatim>\<open>'incorrectUsername'\<close>.
\<close>

theorem reason_code_only_on_two_failures:
  "fst (authenticate limit_opts demo_env 5050 5050 (Some ''pw'') hugo_failed
       \<lparr>store = [hugo_failed], log = []\<rparr>)
     = Rejected \<lparr>result = None,
                 message = ''Login attempted too soon after previous attempt''\<rparr> \<and>
   fst (authenticate limit_opts demo_env 405000 405000 (Some ''pw'')
       (hugo_failed\<lparr>salt := None\<rparr>) \<lparr>store = [hugo_failed\<lparr>salt := None\<rparr>], log = []\<rparr>)
     = Rejected \<lparr>result = None,
                 message = ''Authentication not possible. No salt value stored in mongodb collection!''\<rparr> \<and>
   fst (authenticate limit_opts demo_env 405000 405000 (Some ''wrong'') hugo_failed
       \<lparr>store = [hugo_failed], log = []\<rparr>)
     = Rejected \<lparr>result = Some ''incorrectPassword'', message = ''Incorrect password''\<rparr> \<and>
   fst (authenticate_static plain_opts demo_env 5000 5000 (Some ''nobody'') (Some ''pw'')
       hugo_world)
     = Rejected \<lparr>result = Some ''incorrectUsername'', message = ''Incorrect username''\<rparr>"
proof -
  have t: "throttled limit_opts 5050 hugo_failed"
    by (rule hugo_failed_throttled) (simp_all add: limit_opts_simps)
  have o: "\<not> throttled limit_opts 405000 (hugo_failed\<lparr>salt := s\<rparr>)" for s
    by (rule hugo_failed_open) (simp add: limit_opts_simps)
  have o': "\<not> throttled limit_opts 405000 hugo_failed"
    using o[of "Some ''2a2a''"] by (simp add: hugo_failed_def hugo_def)
  have n: "\<not> truthy (salt (hugo_failed\<lparr>salt := None\<rparr>))" by (simp add: truthy_def)
  have a1: "fst (authenticate limit_opts demo_env 5050 5050 (Some ''pw'') hugo_failed
       \<lparr>store = [hugo_failed], log = []\<rparr>)
     = Rejected \<lparr>result = None,
                 message = ''Login attempted too soon after previous attempt''\<rparr>"
    by (simp add: authenticate_throttled[OF t] limit_opts_simps)
  have a2: "fst (authenticate limit_opts demo_env 405000 405000 (Some ''pw'')
       (hugo_failed\<lparr>salt := None\<rparr>) \<lparr>store = [hugo_failed\<lparr>salt := None\<rparr>], log = []\<rparr>)
     = Rejected \<lparr>result = None,
                 message = ''Authentication not possible. No salt value stored in mongodb collection!''\<rparr>"
    by (simp add: authenticate_no_salt[OF o n] limit_opts_simps)
  have a3: "fst (authenticate limit_opts demo_env 405000 405000 (Some ''wrong'') hugo_failed
       \<lparr>store = [hugo_failed], log = []\<rparr>)
     = Rejected \<lparr>result = Some ''incorrectPassword'', message = ''Incorrect password''\<rparr>"
    using o' by (simp add: authenticate_def truthy_def limit_opts_simps hugo_failed_simps
        demo_kdf_wrong demo_hex_wrong split: prod.splits)
  have a4: "fst (authenticate_static plain_opts demo_env 5000 5000 (Some ''nobody'') (Some ''pw'')
       hugo_world)
     = Rejected \<lparr>result = Some ''incorrectUsername'', message = ''Incorrect username''\<rparr>"
    by (simp add: authenticate_static_def findByUsername_eq findByEmail_eq plain_opts_simps
        hugo_world_def demo_find_hugo field_of_def hugo_simps demo_lower_nobody
        demo_format_incorrect)
  from a1 a2 a3 a4 show ?thesis by simp
qed

end
